theory Spec2Isabelle
  imports Main
begin

section \<open>Machine integers and plain data of screenInfo.cpp\<close>

text \<open>
  \<open>SHORT\<close> is a signed 16-bit integer and \<open>LONG\<close> a signed 32-bit one. C++ evaluates
  every arithmetic expression on them in \<open>int\<close> and truncates only where the result is
  stored back into a narrower variable, so the values are modelled as \<open>int\<close> and the
  truncation is written out, as \<open>to_SHORT\<close> and \<open>to_LONG\<close>, at each such store.
\<close>

type_synonym SHORT = int
type_synonym LONG = int
type_synonym WCHAR = nat
type_synonym BYTE = nat
type_synonym TextAttribute = nat

definition to_SHORT :: "int \<Rightarrow> SHORT" where
  "to_SHORT n = signed_take_bit 15 n"

definition to_LONG :: "int \<Rightarrow> LONG" where
  "to_LONG n = signed_take_bit 31 n"

definition is_SHORT :: "int \<Rightarrow> bool" where
  "is_SHORT n = (- 32768 \<le> n \<and> n \<le> 32767)"

definition is_LONG :: "int \<Rightarrow> bool" where
  "is_LONG n = (- 2147483648 \<le> n \<and> n \<le> 2147483647)"

definition UNICODE_SPACE :: WCHAR where
  "UNICODE_SPACE = 32"

record COORD =
  X :: SHORT
  Y :: SHORT

record SMALL_RECT =
  Left :: SHORT
  Top :: SHORT
  Right :: SHORT
  Bottom :: SHORT

record RECT =
  left :: LONG
  top :: LONG
  right :: LONG
  bottom :: LONG

datatype NTSTATUS =
  STATUS_SUCCESS | STATUS_INVALID_PARAMETER | STATUS_NO_MEMORY | STATUS_INVALID_HANDLE

fun NT_SUCCESS :: "NTSTATUS \<Rightarrow> bool" where
  "NT_SUCCESS STATUS_SUCCESS = True"
| "NT_SUCCESS _ = False"

section \<open>The text buffer as the screen buffer reads and writes it\<close>

text \<open>
  The classes \<open>Cursor\<close>, \<open>ROW\<close> and \<open>TEXT_BUFFER_INFO\<close> are declared outside
  screenInfo.cpp. The records hold the members that screenInfo.cpp reads and writes.
  A setter of \<open>Cursor\<close> stores its argument in the member of the same name.
  \<open>Chars\<close> and \<open>KAttrs\<close> of a row are pointers into the flat arrays \<open>TextRows\<close> and
  \<open>KAttrRows\<close> of the text buffer that owns the row, kept as offsets into these arrays.
  The attribute row of a \<open>ROW\<close> is the type parameter.
\<close>

record Cursor =
  cPosition :: COORD
  fIsOn :: bool
  fDelay :: bool
  fHasMoved :: bool

record 'a ROW =
  Chars :: nat
  KAttrs :: nat
  CharRow_Left :: SHORT
  CharRow_Right :: SHORT
  WasWrapForced :: bool
  WasDoubleBytePadded :: bool
  AttrRow :: 'a
  sRowId :: SHORT

record 'a TEXT_BUFFER_INFO =
  Rows :: "'a ROW list"
  TextRows :: "WCHAR list"
  KAttrRows :: "BYTE list"
  FirstRow :: SHORT
  coordBufferSize :: COORD
  cursor :: Cursor

section \<open>SCREEN_INFORMATION\<close>

text \<open>
  A pointer member is \<open>None\<close> when it is \<open>nullptr\<close> and otherwise the address of the
  object. \<open>TextInfo\<close> is owned by the screen buffer alone and is held by value. The
  singly linked list \<open>_ptsTabs\<close> is the list of its \<open>sColumn\<close> members, head first.
\<close>

type_synonym addr = nat

record 'a SCREEN_INFORMATION =
  coordScreenBufferSize :: COORD
  srBufferViewport :: SMALL_RECT
  TextInfo :: "'a TEXT_BUFFER_INFO"
  Attributes :: TextAttribute
  ptsTabs :: "SHORT list"
  pStateMachine :: "addr option"
  pAdapter :: "addr option"
  pBufferWriter :: "addr option"
  pConApi :: "addr option"
  psiMainBuffer :: "addr option"
  psiAlternateBuffer :: "addr option"
  fAltWindowChanged :: bool

subsection \<open>SetScreenBufferSize, GetScreenBufferSize\<close>

definition SetScreenBufferSize ::
  "COORD \<Rightarrow> 'a SCREEN_INFORMATION \<Rightarrow> 'a SCREEN_INFORMATION" where
  "SetScreenBufferSize coordNewBufferSize si =
     (let coordCandidate = \<lparr>X = max 1 (X coordNewBufferSize), Y = max 1 (Y coordNewBufferSize)\<rparr>
      in si\<lparr>coordScreenBufferSize := coordCandidate\<rparr>)"

definition GetScreenBufferSize :: "'a SCREEN_INFORMATION \<Rightarrow> COORD" where
  "GetScreenBufferSize si = coordScreenBufferSize si"

subsection \<open>SetCursorPosition\<close>

text \<open>
  \<open>fHasFocus\<close> is the test \<open>g_ciConsoleInformation.Flags & CONSOLE_HAS_FOCUS\<close> on the
  global console state.
\<close>

definition SetCursorPosition ::
  "bool \<Rightarrow> COORD \<Rightarrow> bool \<Rightarrow> 'a SCREEN_INFORMATION \<Rightarrow> NTSTATUS \<times> 'a SCREEN_INFORMATION" where
  "SetCursorPosition fHasFocus Position TurnOn si =
     (let coordSize = GetScreenBufferSize si in
      if X Position \<ge> X coordSize \<or> Y Position \<ge> Y coordSize \<or> X Position < 0 \<or> Y Position < 0
      then (STATUS_INVALID_PARAMETER, si)
      else
        let pCursor = (cursor (TextInfo si))\<lparr>cPosition := Position\<rparr>;
            pCursor' =
              (if fHasFocus
               then (if TurnOn then pCursor\<lparr>fDelay := False, fIsOn := True\<rparr>
                     else pCursor\<lparr>fDelay := True\<rparr>)\<lparr>fHasMoved := True\<rparr>
               else pCursor)
        in (STATUS_SUCCESS, si\<lparr>TextInfo := (TextInfo si)\<lparr>cursor := pCursor'\<rparr>\<rparr>))"

subsection \<open>Tab stops: AddTabStop, GetReverseTab\<close>

text \<open>
  \<open>fAlloc\<close> tells whether \<open>new TabStop()\<close> returns an object (\<open>True\<close>) or \<open>nullptr\<close>.
  \<open>AddTabStop_search\<close> is the \<open>while (fSearching)\<close> loop together with the insertion
  after it: \<open>prev\<close> is the node the loop stands on and the list argument is what
  \<open>prev->ptsNext\<close> points to; the result is the status and the list from \<open>prev\<close> on.
  \<open>Status\<close> is initialised to STATUS_NO_MEMORY and is assigned only after an allocation.
\<close>

fun AddTabStop_search :: "bool \<Rightarrow> SHORT \<Rightarrow> SHORT \<Rightarrow> SHORT list \<Rightarrow> NTSTATUS \<times> SHORT list" where
  "AddTabStop_search fAlloc sColumn prev [] =
     (if prev = sColumn then (STATUS_NO_MEMORY, [prev])
      else if fAlloc then (STATUS_SUCCESS, [prev, sColumn])
      else (STATUS_NO_MEMORY, [prev]))"
| "AddTabStop_search fAlloc sColumn prev (nxt # rest) =
     (if prev = sColumn then (STATUS_NO_MEMORY, prev # nxt # rest)
      else if nxt > sColumn
      then (if fAlloc then (STATUS_SUCCESS, prev # sColumn # nxt # rest)
            else (STATUS_NO_MEMORY, prev # nxt # rest))
      else (case AddTabStop_search fAlloc sColumn nxt rest of
              (Status, tabs) \<Rightarrow> (Status, prev # tabs)))"

definition AddTabStop ::
  "bool \<Rightarrow> SHORT \<Rightarrow> 'a SCREEN_INFORMATION \<Rightarrow> NTSTATUS \<times> 'a SCREEN_INFORMATION" where
  "AddTabStop fAlloc sColumn si =
     (case ptsTabs si of
        [] \<Rightarrow>
          (if fAlloc then (STATUS_SUCCESS, si\<lparr>ptsTabs := [sColumn]\<rparr>)
           else (STATUS_NO_MEMORY, si\<lparr>ptsTabs := []\<rparr>))
      | prev # rest \<Rightarrow>
          (if prev > sColumn
           then (if fAlloc then (STATUS_SUCCESS, si\<lparr>ptsTabs := sColumn # prev # rest\<rparr>)
                 else (STATUS_NO_MEMORY, si\<lparr>ptsTabs := []\<rparr>))
           else (case AddTabStop_search fAlloc sColumn prev rest of
                   (Status, tabs) \<Rightarrow> (Status, si\<lparr>ptsTabs := tabs\<rparr>))))"

text \<open>
  \<open>GetReverseTab_scan\<close> is the \<open>for\<close> loop of GetReverseTab: \<open>ptsCurr\<close> is the column of
  the node the loop stands on, the list is what \<open>ptsCurr->ptsNext\<close> points to.
\<close>

fun GetReverseTab_scan :: "SHORT \<Rightarrow> SHORT \<Rightarrow> SHORT list \<Rightarrow> SHORT" where
  "GetReverseTab_scan cursorX ptsCurr [] = ptsCurr"
| "GetReverseTab_scan cursorX ptsCurr (nxt # rest) =
     (if cursorX > nxt then GetReverseTab_scan cursorX nxt rest else ptsCurr)"

definition GetReverseTab :: "COORD \<Rightarrow> 'a SCREEN_INFORMATION \<Rightarrow> COORD" where
  "GetReverseTab cCurrCursorPos si =
     (case ptsTabs si of
        [] \<Rightarrow> cCurrCursorPos\<lparr>X := 0\<rparr>
      | first # rest \<Rightarrow>
          (if X cCurrCursorPos = 0 \<or> first \<ge> X cCurrCursorPos
           then cCurrCursorPos\<lparr>X := 0\<rparr>
           else cCurrCursorPos\<lparr>X := GetReverseTab_scan (X cCurrCursorPos) first rest\<rparr>))"

subsection \<open>Viewport: SetViewportOrigin, SetViewportRect, _InternalSetViewportSize\<close>

text \<open>
  Modelled from the spec: the macros \<open>CalcWindowSizeX\<close> and \<open>CalcWindowSizeY\<close> are
  defined in a header outside the sources; the spec gives the displayable columns of a
  viewport as \<open>right - left + 1\<close>, and the same for rows.
\<close>

definition CalcWindowSizeX :: "SMALL_RECT \<Rightarrow> int" where
  "CalcWindowSizeX r = Right r - Left r + 1"

definition CalcWindowSizeY :: "SMALL_RECT \<Rightarrow> int" where
  "CalcWindowSizeY r = Bottom r - Top r + 1"

definition GetScreenWindowSizeX :: "'a SCREEN_INFORMATION \<Rightarrow> SHORT" where
  "GetScreenWindowSizeX si = to_SHORT (CalcWindowSizeX (srBufferViewport si))"

definition GetScreenWindowSizeY :: "'a SCREEN_INFORMATION \<Rightarrow> SHORT" where
  "GetScreenWindowSizeY si = to_SHORT (CalcWindowSizeY (srBufferViewport si))"

definition SetBufferViewport :: "SMALL_RECT \<Rightarrow> 'a SCREEN_INFORMATION \<Rightarrow> 'a SCREEN_INFORMATION" where
  "SetBufferViewport srBufferViewport' si = si\<lparr>srBufferViewport := srBufferViewport'\<rparr>"

text \<open>
  \<open>fActive\<close> is IsActiveScreenBuffer(), a comparison with the console's current screen
  buffer. \<open>pWindow\<close> is the result of _GetWindow(): \<open>None\<close> for \<open>nullptr\<close>, otherwise
  what \<open>Window::SetViewportOrigin\<close>, a method outside the sources, does to this screen
  buffer when it is handed the new rectangle.
\<close>

definition SetViewportOrigin ::
  "bool \<Rightarrow> (SMALL_RECT \<Rightarrow> 'a SCREEN_INFORMATION \<Rightarrow> 'a SCREEN_INFORMATION) option \<Rightarrow>
   bool \<Rightarrow> COORD \<Rightarrow> 'a SCREEN_INFORMATION \<Rightarrow> NTSTATUS \<times> 'a SCREEN_INFORMATION" where
  "SetViewportOrigin fActive pWindow fAbsolute coordWindowOrigin si =
     (let WindowSizeX = to_SHORT (GetScreenWindowSizeX si);
          WindowSizeY = to_SHORT (GetScreenWindowSizeY si);
          vp = srBufferViewport si
      in
      if \<not> fAbsolute \<and> X coordWindowOrigin = 0 \<and> Y coordWindowOrigin = 0
      then (STATUS_SUCCESS, si)
      else if fAbsolute \<and> X coordWindowOrigin = Left vp \<and> Y coordWindowOrigin = Top vp
      then (STATUS_SUCCESS, si)
      else
        let NewLeft = (if \<not> fAbsolute then to_SHORT (Left vp + X coordWindowOrigin)
                       else X coordWindowOrigin);
            NewTop = (if \<not> fAbsolute then to_SHORT (Top vp + Y coordWindowOrigin)
                      else Y coordWindowOrigin);
            NewWindow = \<lparr>Left = NewLeft, Top = NewTop,
                         Right = to_SHORT (NewLeft + WindowSizeX - 1),
                         Bottom = to_SHORT (NewTop + WindowSizeY - 1)\<rparr>;
            coordSize = GetScreenBufferSize si
        in
        if Left NewWindow < 0 \<or> Top NewWindow < 0 \<or> Right NewWindow < 0 \<or> Bottom NewWindow < 0
           \<or> Right NewWindow \<ge> X coordSize \<or> Bottom NewWindow \<ge> Y coordSize
        then (STATUS_INVALID_PARAMETER, si)
        else if fActive
        then (case pWindow of
                None \<Rightarrow> (STATUS_SUCCESS, si)
              | Some Window_SetViewportOrigin \<Rightarrow> (STATUS_SUCCESS, Window_SetViewportOrigin NewWindow si))
        else (STATUS_SUCCESS, si\<lparr>srBufferViewport := NewWindow\<rparr>))"

text \<open>
  SetViewportRect corrects the rectangle behind its pointer argument in place; the
  corrected rectangle is the second component of the result.
\<close>

definition SetViewportRect ::
  "SMALL_RECT \<Rightarrow> 'a SCREEN_INFORMATION \<Rightarrow> NTSTATUS \<times> SMALL_RECT \<times> 'a SCREEN_INFORMATION" where
  "SetViewportRect prcNewViewport si =
     (if srBufferViewport si = prcNewViewport then (STATUS_SUCCESS, prcNewViewport, si)
      else
        let r1 = (if Left prcNewViewport < 0
                  then prcNewViewport\<lparr>Right := to_SHORT (Right prcNewViewport - Left prcNewViewport),
                                      Left := 0\<rparr>
                  else prcNewViewport);
            r2 = (if Top r1 < 0
                  then r1\<lparr>Bottom := to_SHORT (Bottom r1 - Top r1), Top := 0\<rparr>
                  else r1);
            coordSize = GetScreenBufferSize si;
            r3 = (if Right r2 \<ge> X coordSize then r2\<lparr>Right := X coordSize\<rparr> else r2);
            r4 = (if Bottom r3 \<ge> Y coordSize then r3\<lparr>Bottom := Y coordSize\<rparr> else r3)
        in (STATUS_SUCCESS, r4, si\<lparr>srBufferViewport := r4\<rparr>))"

text \<open>
  The horizontal and the vertical half of _InternalSetViewportSize, and the final
  correction. \<open>coordValidEnd\<close> is what \<open>Selection::GetValidAreaBoundaries\<close>, outside the
  sources, reports as the end of the valid text.
\<close>

definition InternalSetViewportSize_X :: "SHORT \<Rightarrow> bool \<Rightarrow> SHORT \<Rightarrow> SMALL_RECT \<Rightarrow> SMALL_RECT" where
  "InternalSetViewportSize_X DeltaX fResizeFromLeft sizeX vp =
     (if fResizeFromLeft
      then
        let sLeftProposed = to_SHORT (Left vp - DeltaX) in
        if sLeftProposed \<ge> 0 then vp\<lparr>Left := to_SHORT (Left vp - DeltaX)\<rparr>
        else vp\<lparr>Left := 0, Right := to_SHORT (Right vp + to_SHORT \<bar>sLeftProposed\<bar>)\<rparr>
      else
        let sRightProposed = to_SHORT (Right vp + DeltaX) in
        if sRightProposed \<le> sizeX - 1 then vp\<lparr>Right := to_SHORT (Right vp + DeltaX)\<rparr>
        else vp\<lparr>Right := to_SHORT (sizeX - 1),
                Left := to_SHORT (Left vp - (sRightProposed - (sizeX - 1)))\<rparr>)"

definition InternalSetViewportSize_Y ::
  "SHORT \<Rightarrow> bool \<Rightarrow> SHORT \<Rightarrow> COORD \<Rightarrow> SMALL_RECT \<Rightarrow> SMALL_RECT" where
  "InternalSetViewportSize_Y DeltaY fResizeFromTop sizeY coordValidEnd vp =
     (if fResizeFromTop
      then
        let sTopProposed = to_SHORT (Top vp - DeltaY) in
        if sTopProposed \<ge> 0
        then (if Top vp > 0 then vp\<lparr>Top := to_SHORT (Top vp - DeltaY)\<rparr>
              else vp\<lparr>Bottom := to_SHORT (Bottom vp + DeltaY)\<rparr>)
        else vp\<lparr>Top := 0, Bottom := to_SHORT (Bottom vp + to_SHORT \<bar>sTopProposed\<bar>)\<rparr>
      else
        let sBottomProposed = to_SHORT (Bottom vp + DeltaY) in
        if sBottomProposed \<le> sizeY - 1
        then
          (if Bottom vp + DeltaY < Y coordValidEnd
           then
             let vp1 = vp\<lparr>Top := to_SHORT (Top vp - DeltaY)\<rparr> in
             if Top vp1 < 0
             then
               let cRemainder = to_SHORT (0 - Top vp1) in
               vp1\<lparr>Top := to_SHORT (Top vp1 + cRemainder),
                   Bottom := to_SHORT (Bottom vp1 + cRemainder)\<rparr>
             else vp1
           else vp\<lparr>Bottom := to_SHORT (Bottom vp + DeltaY)\<rparr>)
        else vp\<lparr>Bottom := to_SHORT (sizeY - 1),
                Top := to_SHORT (Top vp - (sBottomProposed - (sizeY - 1)))\<rparr>)"

definition InternalSetViewportSize_valid :: "COORD \<Rightarrow> SMALL_RECT \<Rightarrow> SMALL_RECT" where
  "InternalSetViewportSize_valid coordSize vp =
     (let vp1 = (if Left vp < 0
                 then vp\<lparr>Right := to_SHORT (Right vp - Left vp), Left := 0\<rparr> else vp);
          vp2 = (if Top vp1 < 0
                 then vp1\<lparr>Bottom := to_SHORT (Bottom vp1 - Top vp1), Top := 0\<rparr> else vp1)
      in vp2\<lparr>Right := to_SHORT (min (Right vp2) (X coordSize - 1)),
             Bottom := to_SHORT (min (Bottom vp2) (Y coordSize - 1))\<rparr>)"

definition InternalSetViewportSize ::
  "COORD \<Rightarrow> COORD \<Rightarrow> bool \<Rightarrow> bool \<Rightarrow> 'a SCREEN_INFORMATION \<Rightarrow> 'a SCREEN_INFORMATION" where
  "InternalSetViewportSize coordValidEnd pcoordSize fResizeFromTop fResizeFromLeft si =
     (let DeltaX = to_SHORT (X pcoordSize - GetScreenWindowSizeX si);
          DeltaY = to_SHORT (Y pcoordSize - GetScreenWindowSizeY si);
          coordSize = GetScreenBufferSize si;
          vpX = InternalSetViewportSize_X DeltaX fResizeFromLeft (X coordSize) (srBufferViewport si);
          vpY = InternalSetViewportSize_Y DeltaY fResizeFromTop (Y coordSize) coordValidEnd vpX
      in si\<lparr>srBufferViewport := InternalSetViewportSize_valid coordSize vpY\<rparr>)"

text \<open>
  The three operations that change the viewport, and a sequence of them run from left to
  right on one screen buffer. The status of a call plays no part in the next call.
\<close>

datatype viewport_op =
  OpSetViewportRect SMALL_RECT
| OpSetViewportOrigin bool COORD
| OpInternalSetViewportSize COORD COORD bool bool

fun viewport_step ::
  "bool \<Rightarrow> (SMALL_RECT \<Rightarrow> 'a SCREEN_INFORMATION \<Rightarrow> 'a SCREEN_INFORMATION) option \<Rightarrow>
   viewport_op \<Rightarrow> 'a SCREEN_INFORMATION \<Rightarrow> 'a SCREEN_INFORMATION" where
  "viewport_step fActive pWindow (OpSetViewportRect r) si = snd (snd (SetViewportRect r si))"
| "viewport_step fActive pWindow (OpSetViewportOrigin fAbsolute p) si =
     snd (SetViewportOrigin fActive pWindow fAbsolute p si)"
| "viewport_step fActive pWindow (OpInternalSetViewportSize coordValidEnd sz fTop fLeft) si =
     InternalSetViewportSize coordValidEnd sz fTop fLeft si"

fun viewport_run ::
  "bool \<Rightarrow> (SMALL_RECT \<Rightarrow> 'a SCREEN_INFORMATION \<Rightarrow> 'a SCREEN_INFORMATION) option \<Rightarrow>
   viewport_op list \<Rightarrow> 'a SCREEN_INFORMATION \<Rightarrow> 'a SCREEN_INFORMATION" where
  "viewport_run fActive pWindow [] si = si"
| "viewport_run fActive pWindow (op # ops) si =
     viewport_run fActive pWindow ops (viewport_step fActive pWindow op si)"

text \<open>The containment of a rectangle in a buffer of the given size.\<close>

definition rect_contained :: "COORD \<Rightarrow> SMALL_RECT \<Rightarrow> bool" where
  "rect_contained coordSize r =
     (0 \<le> Left r \<and> Left r \<le> Right r \<and> Right r < X coordSize \<and>
      0 \<le> Top r \<and> Top r \<le> Bottom r \<and> Bottom r < Y coordSize)"

definition viewport_contained :: "'a SCREEN_INFORMATION \<Rightarrow> bool" where
  "viewport_contained si = rect_contained (GetScreenBufferSize si) (srBufferViewport si)"

text \<open>
  The hypotheses of the containment theorem. \<open>window_keeps_containment\<close> is what the
  theorem asks of \<open>Window::SetViewportOrigin\<close>: handed a rectangle inside the buffer, it
  leaves the viewport inside the buffer and the buffer size alone.
  \<open>viewport_op_in_range\<close> names the arguments for which an operation is covered: a
  rectangle that is ordered and, once a negative left or top has been shifted to 0, inside
  the buffer; an origin of \<open>SHORT\<close> coordinates; a requested size of at least 1 by 1 that,
  added to the buffer size, stays within the \<open>SHORT\<close> range.
\<close>

definition window_keeps_containment ::
  "(SMALL_RECT \<Rightarrow> 'a SCREEN_INFORMATION \<Rightarrow> 'a SCREEN_INFORMATION) \<Rightarrow> bool" where
  "window_keeps_containment w =
     (\<forall>r si. rect_contained (GetScreenBufferSize si) r \<longrightarrow>
        viewport_contained (w r si) \<and> GetScreenBufferSize (w r si) = GetScreenBufferSize si)"

fun viewport_op_in_range :: "COORD \<Rightarrow> viewport_op \<Rightarrow> bool" where
  "viewport_op_in_range coordSize (OpSetViewportRect r) =
     (Left r \<le> Right r \<and> Top r \<le> Bottom r \<and> - 32768 \<le> Left r \<and> - 32768 \<le> Top r \<and>
      Right r - min 0 (Left r) < X coordSize \<and> Bottom r - min 0 (Top r) < Y coordSize)"
| "viewport_op_in_range coordSize (OpSetViewportOrigin fAbsolute p) =
     (is_SHORT (X p) \<and> is_SHORT (Y p))"
| "viewport_op_in_range coordSize (OpInternalSetViewportSize coordValidEnd sz fTop fLeft) =
     (1 \<le> X sz \<and> 1 \<le> Y sz \<and> X sz + X coordSize \<le> 32768 \<and> Y sz + Y coordSize \<le> 32768)"

text \<open>One axis of a viewport between the per-axis step and the final correction.\<close>

definition axis_ok :: "int \<Rightarrow> int \<Rightarrow> int \<Rightarrow> bool" where
  "axis_ok n lo hi = (lo \<le> hi \<and> lo \<le> n - 1 \<and> - 32768 \<le> lo \<and> hi \<le> 32767 \<and> hi - lo \<le> 32767)"

subsection \<open>s_CalculateScrollbarVisibility\<close>

text \<open>
  Modelled from the spec: the macros \<open>RECT_WIDTH\<close> and \<open>RECT_HEIGHT\<close> are defined in a
  header outside the sources; the client pixels of the spec are the extent of the client
  rectangle, \<open>right - left\<close> and \<open>bottom - top\<close>, here as the \<open>LONG\<close> the macro yields.
\<close>

definition RECT_WIDTH :: "RECT \<Rightarrow> LONG" where
  "RECT_WIDTH r = to_LONG (right r - left r)"

definition RECT_HEIGHT :: "RECT \<Rightarrow> LONG" where
  "RECT_HEIGHT r = to_LONG (bottom r - top r)"

text \<open>
  \<open>sHorizontalScrollSize\<close> and \<open>sVerticalScrollSize\<close> are the globals
  \<open>g_sHorizontalScrollSize\<close> and \<open>g_sVerticalScrollSize\<close>. The result is the pair of
  the two out parameters, \<open>(*pfIsHorizontalVisible, *pfIsVerticalVisible)\<close>.
\<close>

definition s_CalculateScrollbarVisibility ::
  "SHORT \<Rightarrow> SHORT \<Rightarrow> RECT \<Rightarrow> COORD \<Rightarrow> COORD \<Rightarrow> bool \<times> bool" where
  "s_CalculateScrollbarVisibility sHorizontalScrollSize sVerticalScrollSize
       prcClientArea pcoordBufferSize pcoordFontSize =
     (let client_cx = RECT_WIDTH prcClientArea;
          client_cy = RECT_HEIGHT prcClientArea;
          buffer_cx = to_LONG (X pcoordBufferSize * X pcoordFontSize);
          buffer_cy = to_LONG (Y pcoordBufferSize * Y pcoordFontSize)
      in
      if buffer_cx > client_cx
      then (let client_cy' = to_LONG (client_cy - sHorizontalScrollSize)
            in (True, buffer_cy > client_cy'))
      else if buffer_cy > client_cy
      then (let client_cx' = to_LONG (client_cx - sVerticalScrollSize)
            in (buffer_cx > client_cx', True))
      else (False, False))"

text \<open>
  The reference algorithm as the spec words it (steps 1 to 3 of clientToChars), on
  unbounded integers: \<open>clientPixels\<close> and \<open>bufferSize\<close>, \<open>fontSize\<close> are pairs
  \<open>(x, y)\<close>; the result is \<open>(hBarVisible, vBarVisible)\<close>.
\<close>

definition spec_scrollbar_visibility ::
  "int \<times> int \<Rightarrow> int \<times> int \<Rightarrow> int \<times> int \<Rightarrow> int \<Rightarrow> int \<Rightarrow> bool \<times> bool" where
  "spec_scrollbar_visibility clientPixels bufferSize fontSize scrollPx_h scrollPx_v =
     (let bufferPixels = (fst bufferSize * fst fontSize, snd bufferSize * snd fontSize) in
      if fst bufferPixels > fst clientPixels
      then (True, snd bufferPixels > snd clientPixels - scrollPx_h)
      else if snd bufferPixels > snd clientPixels
      then (fst bufferPixels > fst clientPixels - scrollPx_v, True)
      else (False, False))"

subsection \<open>ResizeTraditional\<close>

text \<open>
  What ResizeTraditional needs from outside screenInfo.cpp is collected in \<open>ResizeEnv\<close>:
  the outcome of each allocation and the two methods of the attribute row.
  \<open>new_WCHARs n\<close>, \<open>new_BYTEs n\<close> and \<open>new_ROWs n\<close> are \<open>new WCHAR[n]\<close>,
  \<open>new BYTE[n]\<close> and \<open>new ROW[n]\<close>: \<open>None\<close> when the allocation returns \<open>nullptr\<close>,
  otherwise the new array of \<open>n\<close> elements with the contents it comes with.
  \<open>AttrRow_Initialize i\<close> and \<open>AttrRow_Resize i\<close> are \<open>AttrRow.Initialize\<close> and
  \<open>AttrRow.Resize\<close> called on row \<open>i\<close>: \<open>None\<close> when the method returns false,
  otherwise the attribute row afterwards. A method that returns false is taken to leave
  the attribute row as it was.
\<close>

record 'a ResizeEnv =
  new_WCHARs :: "nat \<Rightarrow> WCHAR list option"
  new_BYTEs :: "nat \<Rightarrow> BYTE list option"
  new_ROWs :: "nat \<Rightarrow> 'a ROW list option"
  AttrRow_Initialize :: "nat \<Rightarrow> 'a \<Rightarrow> SHORT \<Rightarrow> TextAttribute \<Rightarrow> 'a option"
  AttrRow_Resize :: "nat \<Rightarrow> 'a \<Rightarrow> SHORT \<Rightarrow> SHORT \<Rightarrow> 'a option"

text \<open>
  The remainder of C++ truncates towards zero. \<open>memmove_l dst d src s n\<close> copies \<open>n\<close>
  elements from offset \<open>s\<close> of \<open>src\<close> to offset \<open>d\<close> of \<open>dst\<close>, and \<open>fill_l dst d n v\<close>
  stores \<open>v\<close> in \<open>n\<close> elements from offset \<open>d\<close>; both stay within the arrays in every
  call of a well-formed text buffer, which is what the C++ code relies on.
\<close>

definition C_rem :: "int \<Rightarrow> int \<Rightarrow> int" where
  "C_rem a b = a - b * (sgn a * sgn b * (\<bar>a\<bar> div \<bar>b\<bar>))"

definition memmove_l :: "'x list \<Rightarrow> nat \<Rightarrow> 'x list \<Rightarrow> nat \<Rightarrow> nat \<Rightarrow> 'x list" where
  "memmove_l dst d src s n = take d dst @ take n (drop s src) @ drop (d + n) dst"

definition fill_l :: "'x list \<Rightarrow> nat \<Rightarrow> nat \<Rightarrow> 'x \<Rightarrow> 'x list" where
  "fill_l dst d n v = take d dst @ replicate n v @ drop (d + n) dst"

text \<open>
  The loop \<open>for (i = coordScreenBufferSize.Y; i < coordNewScreenSize.Y; i++)\<close> that
  initialises the attribute rows of the added rows; \<open>None\<close> is the early return.
\<close>

fun Initialize_new_rows ::
  "'a ResizeEnv \<Rightarrow> SHORT \<Rightarrow> TextAttribute \<Rightarrow> nat list \<Rightarrow> 'a ROW list \<Rightarrow> 'a ROW list option" where
  "Initialize_new_rows env cols attrs [] Temp = Some Temp"
| "Initialize_new_rows env cols attrs (i # rest) Temp =
     (case AttrRow_Initialize env i (AttrRow (Temp ! i)) cols attrs of
        None \<Rightarrow> None
      | Some a \<Rightarrow> Initialize_new_rows env cols attrs rest (Temp[i := (Temp ! i)\<lparr>AttrRow := a\<rparr>]))"

text \<open>
  The block \<open>if (coordNewScreenSize.Y != coordScreenBufferSize.Y)\<close>: the new ROW array
  receives the rows from \<open>TopRowIndex\<close> on and then, wrapping round, the rows from index
  0. \<open>None\<close> is a return of STATUS_NO_MEMORY; up to there the text buffer is untouched.
  \<open>FreeExtraAttributeRows\<close>, outside the sources, releases the attribute storage of the
  rows that are not carried over; those rows go away with the old array.
\<close>

definition ResizeTraditional_rows ::
  "'a ResizeEnv \<Rightarrow> COORD \<Rightarrow> COORD \<Rightarrow> SHORT \<Rightarrow> TextAttribute \<Rightarrow>
   'a TEXT_BUFFER_INFO \<Rightarrow> 'a TEXT_BUFFER_INFO option" where
  "ResizeTraditional_rows env coordNew coordOld TopRowIndex attrs ti =
     (if Y coordNew \<noteq> Y coordOld
      then
        (case new_ROWs env (nat (Y coordNew)) of
           None \<Rightarrow> None
         | Some Temp \<Rightarrow>
             let n = to_SHORT (Y coordOld - TopRowIndex);
                 NumToCopy = (if n > Y coordNew then Y coordNew else n);
                 Temp1 = memmove_l Temp 0 (Rows ti) (nat TopRowIndex) (nat NumToCopy);
                 Temp2 =
                   (if TopRowIndex \<noteq> 0 \<and> NumToCopy \<noteq> Y coordNew
                    then
                      let NumToCopy2 =
                            (if TopRowIndex > Y coordNew - NumToCopy
                             then to_SHORT (Y coordNew - NumToCopy) else TopRowIndex)
                      in memmove_l Temp1 (nat NumToCopy) (Rows ti) 0 (nat NumToCopy2)
                    else Temp1)
             in
             if Y coordNew < Y coordOld
             then Some (ti\<lparr>FirstRow := 0, Rows := Temp2\<rparr>)
             else
               (case Initialize_new_rows env (X coordNew) attrs
                       [nat (Y coordOld) ..< nat (Y coordNew)] Temp2 of
                  None \<Rightarrow> None
                | Some Temp3 \<Rightarrow> Some (ti\<lparr>FirstRow := 0, Rows := Temp3\<rparr>)))
      else Some ti)"

text \<open>
  The loop over the rows \<open>i < LimitY\<close> that are kept. The state of the loop is the ROW
  array and the two new flat arrays; \<open>TextRowPtr\<close> and \<open>TextRowPtrA\<close> stand at
  \<open>i * coordNewScreenSize.X\<close>. \<open>oldT\<close> and \<open>oldK\<close> are the flat arrays the rows still
  point into.
\<close>

fun ResizeTraditional_keep ::
  "COORD \<Rightarrow> COORD \<Rightarrow> SHORT \<Rightarrow> WCHAR list \<Rightarrow> BYTE list \<Rightarrow> nat list \<Rightarrow>
   'a ROW list \<times> WCHAR list \<times> BYTE list \<Rightarrow> 'a ROW list \<times> WCHAR list \<times> BYTE list" where
  "ResizeTraditional_keep coordNew coordOld LimitX oldT oldK [] st = st"
| "ResizeTraditional_keep coordNew coordOld LimitX oldT oldK (i # rest) (rows, T, K) =
     (let TextRowPtr = i * nat (X coordNew);
          row = rows ! i;
          T1 = memmove_l T TextRowPtr oldT (Chars row) (nat LimitX);
          K1 = memmove_l K TextRowPtr oldK (KAttrs row) (nat LimitX);
          T2 = fill_l T1 (TextRowPtr + nat (X coordOld)) (nat (X coordNew - X coordOld)) UNICODE_SPACE;
          row1 = (if CharRow_Right row > X coordNew then row\<lparr>CharRow_Right := X coordNew\<rparr> else row);
          K2 = (if X coordNew > X coordOld
                then fill_l K1 (TextRowPtr + nat (X coordOld)) (nat (X coordNew - X coordOld)) 0
                else K1);
          row2 = row1\<lparr>Chars := TextRowPtr, KAttrs := TextRowPtr, sRowId := to_SHORT (int i)\<rparr>
      in ResizeTraditional_keep coordNew coordOld LimitX oldT oldK rest (rows[i := row2], T2, K2))"

text \<open>The loop over the rows \<open>LimitY \<le> i < coordNewScreenSize.Y\<close>, which are blanked.\<close>

fun ResizeTraditional_blank ::
  "COORD \<Rightarrow> nat list \<Rightarrow>
   'a ROW list \<times> WCHAR list \<times> BYTE list \<Rightarrow> 'a ROW list \<times> WCHAR list \<times> BYTE list" where
  "ResizeTraditional_blank coordNew [] st = st"
| "ResizeTraditional_blank coordNew (i # rest) (rows, T, K) =
     (let TextRowPtr = i * nat (X coordNew);
          T1 = fill_l T TextRowPtr (nat (X coordNew)) UNICODE_SPACE;
          K1 = fill_l K TextRowPtr (nat (X coordNew)) 0;
          row1 = (rows ! i)\<lparr>Chars := TextRowPtr, CharRow_Left := X coordNew, CharRow_Right := 0,
                            KAttrs := TextRowPtr, sRowId := to_SHORT (int i)\<rparr>
      in ResizeTraditional_blank coordNew rest (rows[i := row1], T1, K1))"

text \<open>
  The last loop, which resizes the attribute row of every kept row and stops at the
  first failure with STATUS_NO_MEMORY.
\<close>

fun ResizeTraditional_attrs ::
  "'a ResizeEnv \<Rightarrow> SHORT \<Rightarrow> SHORT \<Rightarrow> nat list \<Rightarrow> 'a ROW list \<Rightarrow> NTSTATUS \<times> 'a ROW list" where
  "ResizeTraditional_attrs env oldX newX [] rows = (STATUS_SUCCESS, rows)"
| "ResizeTraditional_attrs env oldX newX (i # rest) rows =
     (case AttrRow_Resize env i (AttrRow (rows ! i)) oldX newX of
        None \<Rightarrow> (STATUS_NO_MEMORY, rows)
      | Some a \<Rightarrow> ResizeTraditional_attrs env oldX newX rest (rows[i := (rows ! i)\<lparr>AttrRow := a\<rparr>]))"

definition ResizeTraditional_TopRow :: "COORD \<Rightarrow> 'a SCREEN_INFORMATION \<Rightarrow> SHORT" where
  "ResizeTraditional_TopRow coordNew si =
     (let cursorY = Y (cPosition (cursor (TextInfo si)))
      in if Y coordNew \<le> cursorY then to_SHORT (0 + (cursorY - Y coordNew + 1)) else 0)"

definition ResizeTraditional_TopRowIndex :: "COORD \<Rightarrow> 'a SCREEN_INFORMATION \<Rightarrow> SHORT" where
  "ResizeTraditional_TopRowIndex coordNew si =
     to_SHORT (C_rem (FirstRow (TextInfo si) + ResizeTraditional_TopRow coordNew si)
                 (Y (GetScreenBufferSize si)))"

definition ResizeTraditional ::
  "'a ResizeEnv \<Rightarrow> COORD \<Rightarrow> 'a SCREEN_INFORMATION \<Rightarrow> NTSTATUS \<times> 'a SCREEN_INFORMATION" where
  "ResizeTraditional env coordNew si =
     (if X coordNew mod 65536 \<ge> 32767 \<or> Y coordNew mod 65536 \<ge> 32767
      then (STATUS_INVALID_PARAMETER, si)
      else
       (case new_WCHARs env (nat (X coordNew * Y coordNew)) of
          None \<Rightarrow> (STATUS_NO_MEMORY, si)
        | Some TextRows' \<Rightarrow>
       (case new_BYTEs env (nat (X coordNew * Y coordNew)) of
          None \<Rightarrow> (STATUS_NO_MEMORY, si)
        | Some TextRowsA \<Rightarrow>
            let pTextInfo = TextInfo si;
                coordOld = GetScreenBufferSize si;
                LimitX = to_SHORT (min (X coordNew) (X coordOld));
                LimitY = to_SHORT (min (Y coordNew) (Y coordOld));
                TopRowIndex = ResizeTraditional_TopRowIndex coordNew si
            in
           (case ResizeTraditional_rows env coordNew coordOld TopRowIndex (Attributes si) pTextInfo of
              None \<Rightarrow> (STATUS_NO_MEMORY, si)
            | Some ti1 \<Rightarrow>
                let st1 = ResizeTraditional_keep coordNew coordOld LimitX
                            (TextRows pTextInfo) (KAttrRows pTextInfo) [0 ..< nat LimitY]
                            (Rows ti1, TextRows', TextRowsA);
                    st2 = ResizeTraditional_blank coordNew [nat LimitY ..< nat (Y coordNew)] st1;
                    ti2 = ti1\<lparr>Rows := fst st2, TextRows := fst (snd st2),
                              KAttrRows := snd (snd st2), coordBufferSize := coordNew\<rparr>
                in
                if X coordNew \<noteq> X coordOld
                then
                  (case ResizeTraditional_attrs env (X coordOld) (X coordNew) [0 ..< nat LimitY]
                          (Rows ti2) of
                     (Status, rows) \<Rightarrow> (Status, si\<lparr>TextInfo := ti2\<lparr>Rows := rows\<rparr>\<rparr>))
                else (STATUS_SUCCESS, si\<lparr>TextInfo := ti2\<rparr>)))))"





subsection \<open>ResizeWithReflow\<close>

text \<open>
  ResizeWithReflow prints the old text buffer into a new one through methods of
  \<open>TEXT_BUFFER_INFO\<close>, \<open>ROW\<close> and \<open>TextAttributeRun\<close> that are defined outside
  screenInfo.cpp. They are the parameters of the model: \<open>TEXT_BUFFER_INFO::CreateInstance\<close>
  with the size and the fill attribute it is given, the two queries
  \<open>GetLastNonSpaceCharacter\<close> and \<open>GetRowByOffset\<close>, the attribute \<open>FindAttrIndex\<close> finds
  for a column, the three printing methods, which return their \<open>bool\<close> and the text
  buffer as they leave it, and \<open>CopyProperties\<close>, given the buffer copied from and the
  buffer copied to. The size of the cursor and its deferred-drawing flag are no members
  of the record \<open>Cursor\<close>, so StartDeferDrawing, GetSize, SetSize and EndDeferDrawing do
  not show.
\<close>

record 'a ReflowEnv =
  TextBuffer_CreateInstance :: "COORD \<Rightarrow> TextAttribute \<Rightarrow> NTSTATUS + 'a TEXT_BUFFER_INFO"
  GetLastNonSpaceCharacter :: "'a TEXT_BUFFER_INFO \<Rightarrow> COORD"
  GetRowByOffset :: "'a TEXT_BUFFER_INFO \<Rightarrow> int \<Rightarrow> 'a ROW"
  FindAttrIndex :: "'a \<Rightarrow> int \<Rightarrow> TextAttribute"
  InsertCharacter ::
    "WCHAR \<Rightarrow> BYTE \<Rightarrow> TextAttribute \<Rightarrow> 'a TEXT_BUFFER_INFO \<Rightarrow> bool \<times> 'a TEXT_BUFFER_INFO"
  NewlineCursor :: "'a TEXT_BUFFER_INFO \<Rightarrow> bool \<times> 'a TEXT_BUFFER_INFO"
  IncrementCursor :: "'a TEXT_BUFFER_INFO \<Rightarrow> bool \<times> 'a TEXT_BUFFER_INFO"
  CopyProperties :: "'a TEXT_BUFFER_INFO \<Rightarrow> 'a TEXT_BUFFER_INFO \<Rightarrow> 'a TEXT_BUFFER_INFO"



text \<open>
  \<open>iRight\<close> of a row: its \<open>CharRow.Right\<close>, or for a row that was wrapped the width of the
  old buffer, less one when the wrap padded a double-byte character.
\<close>

definition ResizeWithReflow_iRight :: "SHORT \<Rightarrow> 'a ROW \<Rightarrow> SHORT" where
  "ResizeWithReflow_iRight cOldColsTotal pRow =
     (if WasWrapForced pRow
      then (if WasDoubleBytePadded pRow then to_SHORT (cOldColsTotal - 1) else cOldColsTotal)
      else CharRow_Right pRow)"


text \<open>
  A counted loop of calls of one printing method, \<open>for (int r = 0; r < n; r++)\<close>, which
  sets the status and stops at the first call that fails.
\<close>

fun repeat_call ::
  "('b \<Rightarrow> bool \<times> 'b) \<Rightarrow> nat \<Rightarrow> NTSTATUS \<times> 'b \<Rightarrow> NTSTATUS \<times> 'b" where
  "repeat_call f 0 st = st"
| "repeat_call f (Suc n) (status, b) =
     (case f b of (ok, b') \<Rightarrow>
        if ok then repeat_call f n (status, b') else (STATUS_NO_MEMORY, b'))"



text \<open>
  The two tests by which the loops meet the old cursor, read off the loop bounds: the
  cursor row is one of the rows printed, and the cursor column is either one of the
  columns printed of that row (\<open>iOldCol == cOldCursorPos.X\<close>), or the column \<open>iRight\<close>
  itself of a row that ends in a hard break (\<open>iRight == cOldCursorPos.X\<close>).
\<close>

definition ResizeWithReflow_meets_cursor :: "'a ReflowEnv \<Rightarrow> 'a SCREEN_INFORMATION \<Rightarrow> bool" where
  "ResizeWithReflow_meets_cursor env si =
     (let old = TextInfo si;
          cOldCursorPos = cPosition (cursor old);
          cOldLastChar = GetLastNonSpaceCharacter env old;
          cOldRowsTotal = to_SHORT (Y cOldLastChar + 1);
          cOldColsTotal = X (GetScreenBufferSize si);
          pRow = GetRowByOffset env old (Y cOldCursorPos);
          iRight = ResizeWithReflow_iRight cOldColsTotal pRow
      in
      0 \<le> Y cOldCursorPos \<and> Y cOldCursorPos < cOldRowsTotal \<and>
      (0 \<le> X cOldCursorPos \<and> X cOldCursorPos < iRight \<or>
       X cOldCursorPos = iRight \<and> iRight < cOldColsTotal \<and> \<not> WasWrapForced pRow))"




subsection \<open>A new screen buffer\<close>

text \<open>
  \<open>SCREEN_INFORMATION_new\<close> is the object as the constructor and the first half of
  CreateInstance set it up, once \<open>TEXT_BUFFER_INFO::CreateInstance\<close> has delivered the
  text buffer \<open>ti\<close> and before _InitializeOutputStateMachine runs. The constructor
  names no initialiser for \<open>_psiMainBuffer\<close>, \<open>_psiAlternateBuffer\<close>,
  \<open>_pBufferWriter\<close> and \<open>_fAltWindowChanged\<close>; they start as \<open>nullptr\<close> and
  \<open>false\<close>, which is what the assertions of _InitializeOutputStateMachine and the test of
  _FreeOutputStateMachine expect of a new buffer.
\<close>

definition SCREEN_INFORMATION_new ::
  "TextAttribute \<Rightarrow> COORD \<Rightarrow> COORD \<Rightarrow> 'a TEXT_BUFFER_INFO \<Rightarrow> 'a SCREEN_INFORMATION" where
  "SCREEN_INFORMATION_new ciFill coordWindowSize coordSize ti =
     SetScreenBufferSize coordSize
       \<lparr>coordScreenBufferSize = \<lparr>X = 0, Y = 0\<rparr>,
        srBufferViewport =
          \<lparr>Left = 0, Top = 0, Right = to_SHORT (X coordWindowSize - 1),
           Bottom = to_SHORT (Y coordWindowSize - 1)\<rparr>,
        TextInfo = ti,
        Attributes = ciFill,
        ptsTabs = [],
        pStateMachine = None, pAdapter = None, pBufferWriter = None, pConApi = None,
        psiMainBuffer = None, psiAlternateBuffer = None,
        fAltWindowChanged = False\<rparr>"

subsection \<open>The console: screen buffer objects, the registry, the output state machine\<close>

text \<open>
  The screen buffers live on a heap, a map from addresses to objects; an address that is
  not in the map is not a live object. The registry \<open>g_ciConsoleInformation.ScreenBuffers\<close>,
  a list linked through \<open>Next\<close>, is the list of its addresses, head first. The four
  objects of the output state machine live on a heap of their own kind: a
  \<open>ConhostInternalGetSet\<close> and a \<open>WriteBuffer\<close> hold the screen buffer they act on, an
  \<open>AdaptDispatch\<close> the two it was created with, a \<open>StateMachine\<close> its adapter. \<open>new\<close>
  hands out the address \<open>brk\<close>, which only grows, so a freed address is never live again.
  A function returns \<open>None\<close> where the C++ code dereferences or deletes a pointer that
  is null or dangling.
\<close>

datatype pipeline_obj =
  ConhostInternalGetSet addr
| WriteBuffer addr
| AdaptDispatch "addr option" "addr option"
| StateMachine "addr option"

record 'a Console =
  heap :: "addr \<rightharpoonup> 'a SCREEN_INFORMATION"
  ScreenBuffers :: "addr list"
  CurrentScreenBuffer :: "addr option"
  pipeline :: "addr \<rightharpoonup> pipeline_obj"
  brk :: addr

text \<open>
  What the alternate-buffer operations need from outside screenInfo.cpp: whether each
  allocation of CreateInstance and _InitializeOutputStateMachine succeeds, the text
  buffer \<open>TEXT_BUFFER_INFO::CreateInstance\<close> delivers or the status it fails with, the
  status the global \<open>::SetActiveScreenBuffer\<close> returns, and the values ProcessResizeWindow
  leaves in the three members it writes on a main buffer (buffer size, viewport, text
  buffer).
\<close>

record 'a AltEnv =
  fNew_SCREEN_INFORMATION :: bool
  TEXT_BUFFER_INFO_CreateInstance :: "NTSTATUS + 'a TEXT_BUFFER_INFO"
  fNew_ConhostInternalGetSet :: bool
  fNew_WriteBuffer :: bool
  fAdaptDispatch_CreateInstance :: bool
  fNew_StateMachine :: bool
  SetActiveScreenBuffer_status :: NTSTATUS
  ProcessResizeWindow_writes :: "'a SCREEN_INFORMATION \<Rightarrow> COORD \<times> SMALL_RECT \<times> 'a TEXT_BUFFER_INFO"

definition NT_TESTNULL :: "addr option \<Rightarrow> NTSTATUS" where
  "NT_TESTNULL p = (if p = None then STATUS_NO_MEMORY else STATUS_SUCCESS)"

definition new_obj :: "bool \<Rightarrow> pipeline_obj \<Rightarrow> 'a Console \<Rightarrow> addr option \<times> 'a Console" where
  "new_obj ok v c =
     (if ok then (Some (brk c), c\<lparr>pipeline := (pipeline c)(brk c \<mapsto> v), brk := Suc (brk c)\<rparr>)
      else (None, c))"

definition delete_obj :: "addr option \<Rightarrow> 'a Console \<Rightarrow> 'a Console option" where
  "delete_obj p c =
     (case p of
        None \<Rightarrow> Some c
      | Some a \<Rightarrow> (if a \<in> dom (pipeline c) then Some (c\<lparr>pipeline := (pipeline c)(a := None)\<rparr>)
                   else None))"

definition modify :: "addr \<Rightarrow> ('a SCREEN_INFORMATION \<Rightarrow> 'a SCREEN_INFORMATION) \<Rightarrow>
    'a Console \<Rightarrow> 'a Console option" where
  "modify p f c =
     (case heap c p of None \<Rightarrow> None | Some obj \<Rightarrow> Some (c\<lparr>heap := (heap c)(p \<mapsto> f obj)\<rparr>))"

text \<open>
  Modelled from the spec: the global \<open>::SetActiveScreenBuffer\<close> is defined outside the
  sources; the spec has it make the buffer the active one, which IsActiveScreenBuffer
  reads from \<open>CurrentScreenBuffer\<close>.
\<close>

definition SetActiveScreenBuffer :: "'a AltEnv \<Rightarrow> addr \<Rightarrow> 'a Console \<Rightarrow> NTSTATUS \<times> 'a Console" where
  "SetActiveScreenBuffer env psi c =
     (SetActiveScreenBuffer_status env, c\<lparr>CurrentScreenBuffer := Some psi\<rparr>)"

text \<open>
  \<open>ConhostInternalGetSet::SetActiveScreenBuffer\<close> and \<open>WriteBuffer::SetActiveScreenBuffer\<close>,
  called through the pointer \<open>h\<close>: the object stores the screen buffer it is given.
\<close>

definition obj_SetActiveScreenBuffer :: "addr option \<Rightarrow> addr \<Rightarrow> 'a Console \<Rightarrow> 'a Console option" where
  "obj_SetActiveScreenBuffer h psi c =
     (case h of
        None \<Rightarrow> None
      | Some a \<Rightarrow>
          (case pipeline c a of
             Some (ConhostInternalGetSet _) \<Rightarrow>
               Some (c\<lparr>pipeline := (pipeline c)(a \<mapsto> ConhostInternalGetSet psi)\<rparr>)
           | Some (WriteBuffer _) \<Rightarrow>
               Some (c\<lparr>pipeline := (pipeline c)(a \<mapsto> WriteBuffer psi)\<rparr>)
           | _ \<Rightarrow> None))"

definition s_InsertScreenBuffer :: "addr \<Rightarrow> 'a Console \<Rightarrow> 'a Console" where
  "s_InsertScreenBuffer pScreenInfo c = c\<lparr>ScreenBuffers := pScreenInfo # ScreenBuffers c\<rparr>"

text \<open>
  s_RemoveScreenBuffer unlinks the buffer from the registry, picks a new current buffer
  when the removed one was current, and deletes the object; the destructor deletes the
  text buffer, calls _FreeOutputStateMachine and clears the tab stops, which all go with
  the object here. _FreeOutputStateMachine of a main buffer removes its alternate
  buffer first, which is the recursion. A buffer that is not in the registry makes the
  search loop run off the end of the list.
\<close>

definition unlink_ScreenBuffer :: "'a AltEnv \<Rightarrow> addr \<Rightarrow> 'a Console \<Rightarrow> 'a Console" where
  "unlink_ScreenBuffer env pScreenInfo c =
     (let c1 = c\<lparr>ScreenBuffers := remove1 pScreenInfo (ScreenBuffers c)\<rparr>;
          head = (case ScreenBuffers c1 of [] \<Rightarrow> None | h # _ \<Rightarrow> Some h)
      in
      if Some pScreenInfo = CurrentScreenBuffer c1 \<and> head \<noteq> CurrentScreenBuffer c1
      then (case head of
              Some h \<Rightarrow> snd (SetActiveScreenBuffer env h c1)
            | None \<Rightarrow> c1\<lparr>CurrentScreenBuffer := None\<rparr>)
      else c1)"

lemma ScreenBuffers_unlink:
  "ScreenBuffers (unlink_ScreenBuffer env p c) = remove1 p (ScreenBuffers c)"
  by (simp add: unlink_ScreenBuffer_def Let_def SetActiveScreenBuffer_def split: list.splits)

lemma remove1_shorter:
  "p \<in> set xs \<Longrightarrow> Suc (2 * length (remove1 p xs)) < 2 * length xs"
proof -
  assume "p \<in> set xs"
  then have "0 < length xs" "length (remove1 p xs) = length xs - 1"
    by (auto simp add: length_remove1 dest: length_pos_if_in_set)
  then show ?thesis by (cases xs) simp_all
qed

function s_RemoveScreenBuffer :: "'a AltEnv \<Rightarrow> addr \<Rightarrow> 'a Console \<Rightarrow> 'a Console option"
  and FreeOutputStateMachine :: "'a AltEnv \<Rightarrow> addr \<Rightarrow> 'a Console \<Rightarrow> 'a Console option" where
  "s_RemoveScreenBuffer env pScreenInfo c =
     (if pScreenInfo \<notin> set (ScreenBuffers c) then None
      else
        (case FreeOutputStateMachine env pScreenInfo (unlink_ScreenBuffer env pScreenInfo c) of
           None \<Rightarrow> None
         | Some c3 \<Rightarrow>
             (if pScreenInfo \<in> dom (heap c3)
              then Some (c3\<lparr>heap := (heap c3)(pScreenInfo := None)\<rparr>) else None)))"
| "FreeOutputStateMachine env this c =
     (case heap c this of
        None \<Rightarrow> None
      | Some obj \<Rightarrow>
          (case psiMainBuffer obj of
             None \<Rightarrow>
               (case (case psiAlternateBuffer obj of
                        None \<Rightarrow> Some c
                      | Some alt \<Rightarrow> s_RemoveScreenBuffer env alt c) of
                  None \<Rightarrow> None
                | Some c1 \<Rightarrow>
                    (case delete_obj (pStateMachine obj) c1 of
                       None \<Rightarrow> None
                     | Some c2 \<Rightarrow>
                    (case delete_obj (pAdapter obj) c2 of
                       None \<Rightarrow> None
                     | Some c3 \<Rightarrow>
                    (case delete_obj (pBufferWriter obj) c3 of
                       None \<Rightarrow> None
                     | Some c4 \<Rightarrow> delete_obj (pConApi obj) c4))))
           | Some main \<Rightarrow>
               (case obj_SetActiveScreenBuffer (pConApi obj) main c of
                  None \<Rightarrow> None
                | Some c1 \<Rightarrow> obj_SetActiveScreenBuffer (pBufferWriter obj) main c1)))"
  by pat_completeness auto
termination
  by (relation "measure (\<lambda>x. case x of
          Inl (env, p, c) \<Rightarrow> 2 * length (ScreenBuffers c) + 1
        | Inr (env, p, c) \<Rightarrow> 2 * length (ScreenBuffers c) + 2)")
     (simp_all add: ScreenBuffers_unlink remove1_shorter)

declare s_RemoveScreenBuffer.simps [simp del] FreeOutputStateMachine.simps [simp del]

text \<open>
  _InitializeOutputStateMachine. Each object is created with the pointers the
  constructor call passes; an allocation that fails leaves \<open>nullptr\<close> in the member.
\<close>

definition InitializeOutputStateMachine ::
  "'a AltEnv \<Rightarrow> addr \<Rightarrow> 'a Console \<Rightarrow> (NTSTATUS \<times> 'a Console) option" where
  "InitializeOutputStateMachine env this c =
     (let (a1, c1) = new_obj (fNew_ConhostInternalGetSet env) (ConhostInternalGetSet this) c in
      (case modify this (\<lambda>obj. obj\<lparr>pConApi := a1\<rparr>) c1 of
         None \<Rightarrow> None
       | Some c2 \<Rightarrow>
      (let status1 = NT_TESTNULL a1;
           (a2, c3) = (if NT_SUCCESS status1
                       then new_obj (fNew_WriteBuffer env) (WriteBuffer this) c2
                       else (None, c2))
       in
      (case (if NT_SUCCESS status1 then modify this (\<lambda>obj. obj\<lparr>pBufferWriter := a2\<rparr>) c3
             else Some c3) of
         None \<Rightarrow> None
       | Some c4 \<Rightarrow>
      (let status2 = (if NT_SUCCESS status1 then NT_TESTNULL a2 else status1);
           (a3, c5) = (if NT_SUCCESS status2
                       then new_obj (fAdaptDispatch_CreateInstance env) (AdaptDispatch a1 a2) c4
                       else (None, c4))
       in
      (case (if NT_SUCCESS status2 \<and> a3 \<noteq> None
             then modify this (\<lambda>obj. obj\<lparr>pAdapter := a3\<rparr>) c5 else Some c5) of
         None \<Rightarrow> None
       | Some c6 \<Rightarrow>
      (let status3 = (if NT_SUCCESS status2 \<and> a3 = None then STATUS_NO_MEMORY else status2);
           (a4, c7) = (if NT_SUCCESS status3
                       then new_obj (fNew_StateMachine env) (StateMachine a3) c6
                       else (None, c6))
       in
      (case (if NT_SUCCESS status3 then modify this (\<lambda>obj. obj\<lparr>pStateMachine := a4\<rparr>) c7
             else Some c7) of
         None \<Rightarrow> None
       | Some c8 \<Rightarrow>
      (let status4 = (if NT_SUCCESS status3 then NT_TESTNULL a4 else status3) in
       if \<not> NT_SUCCESS status4
       then (case FreeOutputStateMachine env this c8 of
               None \<Rightarrow> None | Some c9 \<Rightarrow> Some (status4, c9))
       else Some (status4, c8))))))))))"

text \<open>
  CreateInstance. The result is the status, \<open>*ppScreen\<close> and the console. An object that
  CreateInstance abandons when the text buffer cannot be created has no text buffer and
  is reachable from nowhere; it is left out of the heap.
\<close>

definition CreateInstance ::
  "'a AltEnv \<Rightarrow> COORD \<Rightarrow> COORD \<Rightarrow> TextAttribute \<Rightarrow> 'a Console \<Rightarrow>
   (NTSTATUS \<times> addr option \<times> 'a Console) option" where
  "CreateInstance env coordWindowSize coordScreenBufferSize' ciFill c =
     (if \<not> fNew_SCREEN_INFORMATION env then Some (STATUS_NO_MEMORY, None, c)
      else
        let pScreen = brk c; c1 = c\<lparr>brk := Suc (brk c)\<rparr> in
       (case TEXT_BUFFER_INFO_CreateInstance env of
          Inl Status \<Rightarrow> Some (Status, None, c1)
        | Inr ti \<Rightarrow>
            let c2 = c1\<lparr>heap := (heap c1)(pScreen \<mapsto>
                          SCREEN_INFORMATION_new ciFill coordWindowSize coordScreenBufferSize' ti)\<rparr>
            in
           (case InitializeOutputStateMachine env pScreen c2 of
              None \<Rightarrow> None
            | Some (Status, c3) \<Rightarrow>
                Some (Status, (if NT_SUCCESS Status then Some pScreen else None), c3))))"

text \<open>_CreateAltBuffer, called on the buffer \<open>this\<close>.\<close>

definition CreateAltBuffer ::
  "'a AltEnv \<Rightarrow> addr \<Rightarrow> 'a Console \<Rightarrow> (NTSTATUS \<times> addr option \<times> 'a Console) option" where
  "CreateAltBuffer env this c =
     (case heap c this of
        None \<Rightarrow> None
      | Some obj \<Rightarrow>
          let WindowSize = \<lparr>X = to_SHORT (CalcWindowSizeX (srBufferViewport obj)),
                            Y = to_SHORT (CalcWindowSizeY (srBufferViewport obj))\<rparr>
          in
         (case CreateInstance env WindowSize WindowSize (Attributes obj) c of
            None \<Rightarrow> None
          | Some (Status, ppsi, c1) \<Rightarrow>
              (if NT_SUCCESS Status
               then
                 (case ppsi of
                    None \<Rightarrow> None
                  | Some new \<Rightarrow>
                      (case FreeOutputStateMachine env new (s_InsertScreenBuffer new c1) of
                         None \<Rightarrow> None
                       | Some c2 \<Rightarrow>
                           (case heap c2 this of
                              None \<Rightarrow> None
                            | Some me \<Rightarrow>
                                (case modify new (\<lambda>n. n\<lparr>pStateMachine := pStateMachine me,
                                                         pAdapter := pAdapter me,
                                                         pBufferWriter := pBufferWriter me,
                                                         pConApi := pConApi me\<rparr>) c2 of
                                   None \<Rightarrow> None
                                 | Some c3 \<Rightarrow> Some (Status, Some new, c3)))))
               else Some (Status, ppsi, c1))))"

text \<open>
  The replay of a window resize that was saved while an alternate buffer was active:
  ProcessResizeWindow on the main buffer, then \<open>_fAltWindowChanged = false\<close>.
\<close>

definition replay_saved_resize :: "'a AltEnv \<Rightarrow> addr \<Rightarrow> 'a Console \<Rightarrow> 'a Console option" where
  "replay_saved_resize env psiMain c =
     (case heap c psiMain of
        None \<Rightarrow> None
      | Some m \<Rightarrow>
          (if fAltWindowChanged m
           then
             (case ProcessResizeWindow_writes env m of
                (coordSize, vp, ti) \<Rightarrow>
                  Some (c\<lparr>heap := (heap c)(psiMain \<mapsto>
                            m\<lparr>coordScreenBufferSize := coordSize, srBufferViewport := vp,
                              TextInfo := ti, fAltWindowChanged := False\<rparr>)\<rparr>))
           else Some c))"

definition GetMainBuffer :: "addr \<Rightarrow> 'a Console \<Rightarrow> addr option" where
  "GetMainBuffer this c =
     (case heap c this of
        None \<Rightarrow> None
      | Some obj \<Rightarrow> (case psiMainBuffer obj of Some m \<Rightarrow> Some m | None \<Rightarrow> Some this))"

definition UseAlternateScreenBuffer ::
  "'a AltEnv \<Rightarrow> addr \<Rightarrow> 'a Console \<Rightarrow> (NTSTATUS \<times> 'a Console) option" where
  "UseAlternateScreenBuffer env this c =
     (case GetMainBuffer this c of
        None \<Rightarrow> None
      | Some psiMain \<Rightarrow>
     (case replay_saved_resize env psiMain c of
        None \<Rightarrow> None
      | Some c1 \<Rightarrow>
     (case CreateAltBuffer env this c1 of
        None \<Rightarrow> None
      | Some (Status, ppsi, c2) \<Rightarrow>
          (if NT_SUCCESS Status
           then
             (case (ppsi, heap c2 psiMain) of
                (Some psiNewAltBuffer, Some m) \<Rightarrow>
                  let psiOldAltBuffer = psiAlternateBuffer m in
                  (case modify psiNewAltBuffer (\<lambda>n. n\<lparr>psiMainBuffer := Some psiMain\<rparr>) c2 of
                     None \<Rightarrow> None
                   | Some c3 \<Rightarrow>
                  (case modify psiMain (\<lambda>n. n\<lparr>psiAlternateBuffer := Some psiNewAltBuffer\<rparr>) c3 of
                     None \<Rightarrow> None
                   | Some c4 \<Rightarrow>
                  (case (case psiOldAltBuffer of
                           None \<Rightarrow> Some c4
                         | Some old \<Rightarrow> s_RemoveScreenBuffer env old c4) of
                     None \<Rightarrow> None
                   | Some c5 \<Rightarrow>
                  (case heap c5 this of
                     None \<Rightarrow> None
                   | Some me \<Rightarrow>
                  (case obj_SetActiveScreenBuffer (pConApi me) psiNewAltBuffer c5 of
                     None \<Rightarrow> None
                   | Some c6 \<Rightarrow>
                  (case obj_SetActiveScreenBuffer (pBufferWriter me) psiNewAltBuffer c6 of
                     None \<Rightarrow> None
                   | Some c7 \<Rightarrow> Some (SetActiveScreenBuffer env psiNewAltBuffer c7)))))))
              | _ \<Rightarrow> None)
           else Some (Status, c2)))))"

definition UseMainScreenBuffer ::
  "'a AltEnv \<Rightarrow> addr \<Rightarrow> 'a Console \<Rightarrow> (NTSTATUS \<times> 'a Console) option" where
  "UseMainScreenBuffer env this c =
     (case heap c this of
        None \<Rightarrow> None
      | Some obj \<Rightarrow>
          (case psiMainBuffer obj of
             None \<Rightarrow> Some (STATUS_SUCCESS, c)
           | Some psiMain \<Rightarrow>
               (case replay_saved_resize env psiMain c of
                  None \<Rightarrow> None
                | Some c1 \<Rightarrow>
                    (case SetActiveScreenBuffer env psiMain c1 of
                       (Status, c2) \<Rightarrow>
                         (if NT_SUCCESS Status
                          then
                            (case heap c2 psiMain of
                               None \<Rightarrow> None
                             | Some m \<Rightarrow>
                                 (case modify psiMain (\<lambda>n. n\<lparr>psiAlternateBuffer := None\<rparr>) c2 of
                                    None \<Rightarrow> None
                                  | Some c3 \<Rightarrow>
                                      (case psiAlternateBuffer m of
                                         None \<Rightarrow> None
                                       | Some psiAlt \<Rightarrow>
                                           (case s_RemoveScreenBuffer env psiAlt c3 of
                                              None \<Rightarrow> None
                                            | Some c4 \<Rightarrow> Some (Status, c4)))))
                          else Some (Status, c2))))))"

text \<open>
  The four handles of the output state machine a screen buffer holds, in the order state
  machine, adapter, buffer writer, getset. A handle is live when it points to an object
  of the pipeline heap, and freed when it points to none.
\<close>

definition pipeline_handles ::
  "'a SCREEN_INFORMATION \<Rightarrow> addr option \<times> addr option \<times> addr option \<times> addr option" where
  "pipeline_handles obj = (pStateMachine obj, pAdapter obj, pBufferWriter obj, pConApi obj)"

definition live :: "'a Console \<Rightarrow> addr option \<Rightarrow> bool" where
  "live c h = (case h of None \<Rightarrow> False | Some a \<Rightarrow> pipeline c a \<noteq> None)"

definition freed :: "'a Console \<Rightarrow> addr option \<Rightarrow> bool" where
  "freed c h = (case h of None \<Rightarrow> False | Some a \<Rightarrow> pipeline c a = None)"

definition handles_live ::
  "'a Console \<Rightarrow> addr option \<times> addr option \<times> addr option \<times> addr option \<Rightarrow> bool" where
  "handles_live c P = (case P of (sm, ad, bw, ca) \<Rightarrow> live c sm \<and> live c ad \<and> live c bw \<and> live c ca)"

definition handles_freed ::
  "'a Console \<Rightarrow> addr option \<times> addr option \<times> addr option \<times> addr option \<Rightarrow> bool" where
  "handles_freed c P = (case P of (sm, ad, bw, ca) \<Rightarrow> freed c sm \<and> freed c ad \<and> freed c bw \<and> freed c ca)"

text \<open>
  \<open>new\<close> returns an address that is not in use: no live object, and no entry of the
  registry, lies at or above \<open>brk\<close>.
\<close>

definition console_fresh :: "'a Console \<Rightarrow> bool" where
  "console_fresh c =
     (\<forall>a. brk c \<le> a \<longrightarrow> heap c a = None \<and> pipeline c a = None \<and> a \<notin> set (ScreenBuffers c))"

text \<open>Every allocation succeeds and \<open>::SetActiveScreenBuffer\<close> reports success.\<close>

definition AltEnv_succeeds :: "'a AltEnv \<Rightarrow> bool" where
  "AltEnv_succeeds env =
     (fNew_SCREEN_INFORMATION env \<and>
      (case TEXT_BUFFER_INFO_CreateInstance env of Inl _ \<Rightarrow> False | Inr _ \<Rightarrow> True) \<and>
      fNew_ConhostInternalGetSet env \<and> fNew_WriteBuffer env \<and>
      fAdaptDispatch_CreateInstance env \<and> fNew_StateMachine env \<and>
      SetActiveScreenBuffer_status env = STATUS_SUCCESS)"

text \<open>
  A blank text buffer for the concrete scenarios below: every cell a space, row \<open>i\<close>
  bound to the \<open>i\<close>-th slice of the flat arrays, the cursor at the origin.
\<close>

definition blank_ROW :: "SHORT \<Rightarrow> 'a \<Rightarrow> nat \<Rightarrow> 'a ROW" where
  "blank_ROW cols a i =
     \<lparr>Chars = i * nat cols, KAttrs = i * nat cols, CharRow_Left = cols, CharRow_Right = 0,
      WasWrapForced = False, WasDoubleBytePadded = False, AttrRow = a, sRowId = int i\<rparr>"

definition blank_TEXT_BUFFER_INFO :: "COORD \<Rightarrow> 'a \<Rightarrow> 'a TEXT_BUFFER_INFO" where
  "blank_TEXT_BUFFER_INFO coordSize a =
     \<lparr>Rows = map (blank_ROW (X coordSize) a) [0 ..< nat (Y coordSize)],
      TextRows = replicate (nat (X coordSize) * nat (Y coordSize)) UNICODE_SPACE,
      KAttrRows = replicate (nat (X coordSize) * nat (Y coordSize)) 0,
      FirstRow = 0,
      coordBufferSize = coordSize,
      cursor = \<lparr>cPosition = \<lparr>X = 0, Y = 0\<rparr>, fIsOn = False, fDelay = False, fHasMoved = False\<rparr>\<rparr>"

definition blank_screen :: "COORD \<Rightarrow> unit SCREEN_INFORMATION" where
  "blank_screen coordSize =
     SCREEN_INFORMATION_new 7 coordSize coordSize (blank_TEXT_BUFFER_INFO coordSize ())"

text \<open>
  For the scenario of the alternate buffer: an environment in which everything succeeds
  and a replayed resize leaves the main buffer as it is, and the console after start-up,
  with one 80x25 main buffer that has been created, registered and made active.
\<close>

definition plain_AltEnv :: "unit AltEnv" where
  "plain_AltEnv =
     \<lparr>fNew_SCREEN_INFORMATION = True,
      TEXT_BUFFER_INFO_CreateInstance = Inr (blank_TEXT_BUFFER_INFO \<lparr>X = 80, Y = 25\<rparr> ()),
      fNew_ConhostInternalGetSet = True, fNew_WriteBuffer = True,
      fAdaptDispatch_CreateInstance = True, fNew_StateMachine = True,
      SetActiveScreenBuffer_status = STATUS_SUCCESS,
      ProcessResizeWindow_writes =
        (\<lambda>si. (coordScreenBufferSize si, srBufferViewport si, TextInfo si))\<rparr>"

definition empty_Console :: "unit Console" where
  "empty_Console =
     \<lparr>heap = Map.empty, ScreenBuffers = [], CurrentScreenBuffer = None,
      pipeline = Map.empty, brk = 1\<rparr>"

definition main_Console :: "unit Console" where
  "main_Console =
     (case CreateInstance plain_AltEnv \<lparr>X = 80, Y = 25\<rparr> \<lparr>X = 80, Y = 25\<rparr> 7 empty_Console of
        Some (_, Some p, c) \<Rightarrow> snd (SetActiveScreenBuffer plain_AltEnv p (s_InsertScreenBuffer p c))
      | _ \<Rightarrow> empty_Console)"









text \<open>
  For the scenarios of ResizeTraditional: a text buffer whose row \<open>i\<close> is filled with
  the letter \<open>A + i\<close>, and an environment in which every allocation succeeds, new storage
  comes zeroed, a new ROW is a blank one and the attribute row is not looked into. In
  \<open>failing_Resize_env\<close> the first call of \<open>AttrRow.Resize\<close> fails.
\<close>

definition lettered_screen :: "COORD \<Rightarrow> COORD \<Rightarrow> unit SCREEN_INFORMATION" where
  "lettered_screen coordSize coordCursor =
     (let si = blank_screen coordSize; ti = TextInfo si
      in si\<lparr>TextInfo := ti\<lparr>
            TextRows := concat (map (\<lambda>i. replicate (nat (X coordSize)) (65 + i)) [0 ..< nat (Y coordSize)]),
            cursor := (cursor ti)\<lparr>cPosition := coordCursor\<rparr>\<rparr>\<rparr>)"

definition plain_env :: "unit ResizeEnv" where
  "plain_env =
     \<lparr>new_WCHARs = (\<lambda>n. Some (replicate n 0)),
      new_BYTEs = (\<lambda>n. Some (replicate n 0)),
      new_ROWs = (\<lambda>n. Some (replicate n (blank_ROW 0 () 0))),
      AttrRow_Initialize = (\<lambda>i a cols attrs. Some ()),
      AttrRow_Resize = (\<lambda>i a oldX newX. Some ())\<rparr>"

definition failing_Resize_env :: "unit ResizeEnv" where
  "failing_Resize_env = plain_env\<lparr>AttrRow_Resize := (\<lambda>i a oldX newX. None)\<rparr>"

section \<open>Buffer size and cursor position\<close>

text \<open>
  C9. For every requested size, zero and negative components included,
  SetScreenBufferSize stores exactly (max(1, x), max(1, y)) and leaves every other member
  alone: each dimension is bounded below by 1, and no upper bound is applied, so 32767,
  the largest \<open>SHORT\<close>, is stored as it is.
\<close>

theorem SetScreenBufferSize_clamps_below_only:
  "GetScreenBufferSize (SetScreenBufferSize \<lparr>X = x, Y = y\<rparr> si) = \<lparr>X = max 1 x, Y = max 1 y\<rparr>
   \<and> SetScreenBufferSize \<lparr>X = x, Y = y\<rparr> si
       = si\<lparr>coordScreenBufferSize := \<lparr>X = max 1 x, Y = max 1 y\<rparr>\<rparr>
   \<and> GetScreenBufferSize (SetScreenBufferSize \<lparr>X = 32767, Y = - 5\<rparr> si) = \<lparr>X = 32767, Y = 1\<rparr>"
  by (simp add: SetScreenBufferSize_def GetScreenBufferSize_def)

text \<open>
  C10. SetCursorPosition returns STATUS_INVALID_PARAMETER exactly when the position has a
  negative coordinate or one that reaches the buffer size, and then nothing of the screen
  buffer changes; in every other case it returns STATUS_SUCCESS and the cursor position
  afterwards is the requested one.
\<close>

theorem SetCursorPosition_range_check:
  "fst (SetCursorPosition fHasFocus p TurnOn si) =
     (if X p < 0 \<or> Y p < 0 \<or> X p \<ge> X (GetScreenBufferSize si) \<or> Y p \<ge> Y (GetScreenBufferSize si)
      then STATUS_INVALID_PARAMETER else STATUS_SUCCESS)
   \<and> cPosition (cursor (TextInfo (snd (SetCursorPosition fHasFocus p TurnOn si)))) =
     (if X p < 0 \<or> Y p < 0 \<or> X p \<ge> X (GetScreenBufferSize si) \<or> Y p \<ge> Y (GetScreenBufferSize si)
      then cPosition (cursor (TextInfo si)) else p)
   \<and> (fst (SetCursorPosition fHasFocus p TurnOn si) = STATUS_INVALID_PARAMETER
        \<longleftrightarrow> snd (SetCursorPosition fHasFocus p TurnOn si) = si \<and>
            (X p < 0 \<or> Y p < 0 \<or> X p \<ge> X (GetScreenBufferSize si) \<or> Y p \<ge> Y (GetScreenBufferSize si)))"
  by (auto simp add: SetCursorPosition_def Let_def)

section \<open>Tab stops\<close>

lemma GetReverseTab_scan_greatest:
  "sorted_wrt (<) (cur # rest) \<Longrightarrow> cur < x \<Longrightarrow>
     GetReverseTab_scan x cur rest \<in> set (cur # rest)
     \<and> GetReverseTab_scan x cur rest < x
     \<and> (\<forall>t\<in>set (cur # rest). t < x \<longrightarrow> t \<le> GetReverseTab_scan x cur rest)"
proof (induction rest arbitrary: cur)
  case Nil
  then show ?case by simp
next
  case (Cons nxt rest)
  show ?case
  proof (cases "x > nxt")
    case True
    from Cons.prems have s: "sorted_wrt (<) (nxt # rest)" and lt: "cur < nxt" by auto
    from Cons.IH [OF s True] lt show ?thesis using True by auto
  next
    case False
    with Cons.prems show ?thesis by fastforce
  qed
qed

text \<open>
  C6. For a tab-stop list in strictly increasing order, GetReverseTab keeps the row and
  returns column 0 when the cursor is in column 0, when there is no tab stop, or when no
  stop lies strictly left of the cursor; otherwise it returns the greatest stop strictly
  left of the cursor. With the stops 4, 12 and 8 added in this order, the reverse tab of
  (10, 0) is (8, 0).
\<close>

theorem GetReverseTab_greatest_stop_below:
  assumes "sorted_wrt (<) (ptsTabs si)"
  shows "GetReverseTab pos si =
           (if X pos = 0 \<or> ptsTabs si = [] \<or> (\<forall>t\<in>set (ptsTabs si). \<not> t < X pos)
            then pos\<lparr>X := 0\<rparr>
            else pos\<lparr>X := Max {t \<in> set (ptsTabs si). t < X pos}\<rparr>)"
proof (cases "ptsTabs si")
  case Nil
  then show ?thesis by (simp add: GetReverseTab_def)
next
  case (Cons first rest)
  show ?thesis
  proof (cases "X pos = 0 \<or> first \<ge> X pos")
    case True
    have "\<forall>t\<in>set (ptsTabs si). \<not> t < X pos" if "first \<ge> X pos"
      using assms Cons that by fastforce
    with True Cons show ?thesis by (auto simp add: GetReverseTab_def)
  next
    case False
    then have lt: "first < X pos" and nz: "X pos \<noteq> 0" by auto
    from assms Cons have s: "sorted_wrt (<) (first # rest)" by simp
    let ?g = "GetReverseTab_scan (X pos) first rest"
    from GetReverseTab_scan_greatest [OF s lt]
    have g: "?g \<in> set (first # rest)" "?g < X pos"
      "\<forall>t\<in>set (first # rest). t < X pos \<longrightarrow> t \<le> ?g" by auto
    have "Max {t \<in> set (ptsTabs si). t < X pos} = ?g"
      using g Cons by (intro Max_eqI) auto
    moreover have "\<not> (\<forall>t\<in>set (ptsTabs si). \<not> t < X pos)" using lt Cons by auto
    ultimately show ?thesis using Cons nz lt by (simp add: GetReverseTab_def)
  qed
qed

lemma tabs_built: "snd (AddTabStop True 8 (snd (AddTabStop True 12 (snd (AddTabStop True 4 (blank_screen \<lparr>X = 80, Y = 25\<rparr>))))))
   = (blank_screen \<lparr>X = 80, Y = 25\<rparr>)\<lparr>ptsTabs := [4, 8, 12]\<rparr>"
  by (simp add: AddTabStop_def blank_screen_def SCREEN_INFORMATION_new_def SetScreenBufferSize_def)

theorem GetReverseTab_greatest_stop_below_witness:
  "sorted_wrt (<) (ptsTabs (snd (AddTabStop True 8 (snd (AddTabStop True 12 (snd (AddTabStop True 4 (blank_screen \<lparr>X = 80, Y = 25\<rparr>))))))))
   \<and> GetReverseTab \<lparr>X = 10, Y = 0\<rparr> (snd (AddTabStop True 8 (snd (AddTabStop True 12 (snd (AddTabStop True 4 (blank_screen \<lparr>X = 80, Y = 25\<rparr>)))))))
       = \<lparr>X = 8, Y = 0\<rparr>"
proof -
  let ?si = "snd (AddTabStop True 8 (snd (AddTabStop True 12 (snd (AddTabStop True 4 (blank_screen \<lparr>X = 80, Y = 25\<rparr>))))))"
  have t: "ptsTabs ?si = [4, 8, 12]" by (simp add: tabs_built)
  then have s: "sorted_wrt (<) (ptsTabs ?si)" by simp
  have m: "Max {t \<in> set [4, 8, 12 :: int]. t < 10} = 8"
    by (intro Max_eqI) auto
  from GetReverseTab_greatest_stop_below [OF s, of "\<lparr>X = 10, Y = 0\<rparr>"] t m s
  show ?thesis by simp
qed

text \<open>
  C5. AddTabStop on a column that already holds a stop leaves the list as it is, but it
  returns STATUS_NO_MEMORY although no allocation was attempted: the status is
  initialised to STATUS_NO_MEMORY and the duplicate path never assigns it. When the
  allocation of a new head fails, the head pointer has already been overwritten and the
  whole list is lost; a failed allocation further down leaves the list untouched.
\<close>

theorem AddTabStop_duplicate_reports_no_memory:
  "AddTabStop True 4 (si\<lparr>ptsTabs := [4]\<rparr>) = (STATUS_NO_MEMORY, si\<lparr>ptsTabs := [4]\<rparr>)
   \<and> AddTabStop True 8 (si\<lparr>ptsTabs := [4, 8, 12]\<rparr>) = (STATUS_NO_MEMORY, si\<lparr>ptsTabs := [4, 8, 12]\<rparr>)
   \<and> AddTabStop False 2 (si\<lparr>ptsTabs := [4, 8]\<rparr>) = (STATUS_NO_MEMORY, si\<lparr>ptsTabs := []\<rparr>)
   \<and> AddTabStop False 9 (si\<lparr>ptsTabs := [4, 8]\<rparr>) = (STATUS_NO_MEMORY, si\<lparr>ptsTabs := [4, 8]\<rparr>)"
  by (simp add: AddTabStop_def)

section \<open>Scroll-bar visibility\<close>

lemma to_LONG_id: "is_LONG n \<Longrightarrow> to_LONG n = n"
  by (simp add: is_LONG_def to_LONG_def signed_take_bit_int_eq_self_iff)

lemma to_SHORT_id: "is_SHORT n \<Longrightarrow> to_SHORT n = n"
  by (simp add: is_SHORT_def to_SHORT_def signed_take_bit_int_eq_self_iff)

lemma SHORT_product_is_LONG:
  assumes "0 < a" "a \<le> 32767" "0 < b" "b \<le> 32767"
  shows "is_LONG (a * b)"
proof -
  have "a * b \<le> 32767 * 32767" using assms by (intro mult_mono) auto
  moreover have "0 \<le> a * b" using assms by simp
  ultimately show ?thesis by (simp add: is_LONG_def)
qed

text \<open>
  C7. For a client rectangle of positive width and height, positive buffer and font
  dimensions and scroll-bar sizes that are not negative, s_CalculateScrollbarVisibility
  is the two-branch reference algorithm of the spec: the horizontal bar is visible when
  the buffer is wider than the client area, and then the vertical bar is tested against
  the client height less the horizontal bar; only otherwise the vertical bar is visible
  when the buffer is taller than the client area, and then the horizontal bar is tested
  again against the client width less the vertical bar. No bar is visible in any other
  way.
\<close>

theorem s_CalculateScrollbarVisibility_two_branches:
  assumes width: "0 < right rc - left rc" "right rc - left rc \<le> 2147483647"
      and height: "0 < bottom rc - top rc" "bottom rc - top rc \<le> 2147483647"
      and buf: "0 < X buf" "X buf \<le> 32767" "0 < Y buf" "Y buf \<le> 32767"
      and font: "0 < X font" "X font \<le> 32767" "0 < Y font" "Y font \<le> 32767"
      and bars: "0 \<le> sh" "sh \<le> 32767" "0 \<le> sv" "sv \<le> 32767"
  shows "s_CalculateScrollbarVisibility sh sv rc buf font
           = spec_scrollbar_visibility (right rc - left rc, bottom rc - top rc)
               (X buf, Y buf) (X font, Y font) sh sv
         \<and> fst (s_CalculateScrollbarVisibility sh sv rc buf font)
           = (X buf * X font > right rc - left rc
              \<or> (Y buf * Y font > bottom rc - top rc
                 \<and> X buf * X font > right rc - left rc - sv))
         \<and> snd (s_CalculateScrollbarVisibility sh sv rc buf font)
           = (if X buf * X font > right rc - left rc
              then Y buf * Y font > bottom rc - top rc - sh
              else Y buf * Y font > bottom rc - top rc)"
proof -
  have w: "RECT_WIDTH rc = right rc - left rc"
    using width by (simp add: RECT_WIDTH_def to_LONG_id is_LONG_def)
  have h: "RECT_HEIGHT rc = bottom rc - top rc"
    using height by (simp add: RECT_HEIGHT_def to_LONG_id is_LONG_def)
  have bx: "to_LONG (X buf * X font) = X buf * X font"
    using buf font by (intro to_LONG_id SHORT_product_is_LONG) auto
  have by': "to_LONG (Y buf * Y font) = Y buf * Y font"
    using buf font by (intro to_LONG_id SHORT_product_is_LONG) auto
  have ch: "to_LONG (bottom rc - top rc - sh) = bottom rc - top rc - sh"
    using height bars by (intro to_LONG_id) (simp add: is_LONG_def)
  have cv: "to_LONG (right rc - left rc - sv) = right rc - left rc - sv"
    using width bars by (intro to_LONG_id) (simp add: is_LONG_def)
  show ?thesis
    by (auto simp add: s_CalculateScrollbarVisibility_def spec_scrollbar_visibility_def
        Let_def w h bx by' ch cv)
qed

theorem s_CalculateScrollbarVisibility_two_branches_witness:
  "s_CalculateScrollbarVisibility 17 17 \<lparr>left = 0, top = 0, right = 800, bottom = 600\<rparr>
       \<lparr>X = 100, Y = 300\<rparr> \<lparr>X = 8, Y = 16\<rparr> = (True, True)
   \<and> spec_scrollbar_visibility (800, 600) (100, 300) (8, 16) 17 17 = (True, True)"
  using s_CalculateScrollbarVisibility_two_branches
    [of "\<lparr>left = 0, top = 0, right = 800, bottom = 600\<rparr>" "\<lparr>X = 100, Y = 300\<rparr>"
        "\<lparr>X = 8, Y = 16\<rparr>" 17 17]
  by (simp add: spec_scrollbar_visibility_def)

section \<open>Viewport containment\<close>

lemma to_SHORT_range: "- 32768 \<le> to_SHORT n \<and> to_SHORT n \<le> 32767"
  using signed_take_bit_int_greater_eq_minus_exp [of 15 n] signed_take_bit_int_less_exp [of 15 n]
  by (simp add: to_SHORT_def)

lemma to_SHORT_shift_down: "to_SHORT (n - 65536) = to_SHORT n"
proof -
  have "(n + 32768 - 65536) mod 65536 = (n + 32768) mod 65536"
    using mod_diff_right_eq [of "n + 32768" 65536 65536, symmetric] by simp
  then show ?thesis
    by (simp add: to_SHORT_def signed_take_bit_eq_take_bit_shift take_bit_eq_mod)
qed

lemma to_SHORT_high: "32767 < n \<Longrightarrow> n \<le> 98303 \<Longrightarrow> to_SHORT n = n - 65536"
  using to_SHORT_id [of "n - 65536"] by (simp add: to_SHORT_shift_down is_SHORT_def)

lemma to_SHORT_keep: "- 32768 \<le> n \<Longrightarrow> n \<le> 32767 \<Longrightarrow> to_SHORT n = n"
  by (simp add: to_SHORT_id is_SHORT_def)

lemma InternalSetViewportSize_X_axis:
  assumes "0 \<le> Left vp" "Left vp \<le> Right vp" "Right vp < n" "n \<le> 32767"
      and "1 \<le> sz" "sz + n \<le> 32768"
  shows "axis_ok n (Left (InternalSetViewportSize_X (sz - (Right vp - Left vp + 1)) fl n vp))
                   (Right (InternalSetViewportSize_X (sz - (Right vp - Left vp + 1)) fl n vp))
         \<and> Top (InternalSetViewportSize_X (sz - (Right vp - Left vp + 1)) fl n vp) = Top vp
         \<and> Bottom (InternalSetViewportSize_X (sz - (Right vp - Left vp + 1)) fl n vp) = Bottom vp"
  using assms
  by (auto simp add: InternalSetViewportSize_X_def Let_def axis_ok_def to_SHORT_keep)

lemma InternalSetViewportSize_Y_axis:
  assumes "0 \<le> Top vp" "Top vp \<le> Bottom vp" "Bottom vp < n" "n \<le> 32767"
      and "1 \<le> sz" "sz + n \<le> 32768"
  shows "axis_ok n (Top (InternalSetViewportSize_Y (sz - (Bottom vp - Top vp + 1)) ft n ve vp))
                   (Bottom (InternalSetViewportSize_Y (sz - (Bottom vp - Top vp + 1)) ft n ve vp))
         \<and> Left (InternalSetViewportSize_Y (sz - (Bottom vp - Top vp + 1)) ft n ve vp) = Left vp
         \<and> Right (InternalSetViewportSize_Y (sz - (Bottom vp - Top vp + 1)) ft n ve vp) = Right vp"
  using assms
  by (auto simp add: InternalSetViewportSize_Y_def Let_def axis_ok_def to_SHORT_keep)

lemma InternalSetViewportSize_valid_contained:
  assumes "axis_ok (X coordSize) (Left vp) (Right vp)" "axis_ok (Y coordSize) (Top vp) (Bottom vp)"
      and "1 \<le> X coordSize" "X coordSize \<le> 32767" "1 \<le> Y coordSize" "Y coordSize \<le> 32767"
  shows "rect_contained coordSize (InternalSetViewportSize_valid coordSize vp)"
  using assms
  by (auto simp add: InternalSetViewportSize_valid_def Let_def axis_ok_def rect_contained_def
      to_SHORT_keep)

lemma InternalSetViewportSize_contained:
  assumes c: "viewport_contained si"
      and n: "X (GetScreenBufferSize si) \<le> 32767" "Y (GetScreenBufferSize si) \<le> 32767"
      and sz: "1 \<le> X sz" "1 \<le> Y sz"
        "X sz + X (GetScreenBufferSize si) \<le> 32768" "Y sz + Y (GetScreenBufferSize si) \<le> 32768"
  shows "viewport_contained (InternalSetViewportSize ve sz ft fl si)
         \<and> GetScreenBufferSize (InternalSetViewportSize ve sz ft fl si) = GetScreenBufferSize si"
proof -
  let ?vp = "srBufferViewport si"
  let ?n = "GetScreenBufferSize si"
  from c have v: "0 \<le> Left ?vp" "Left ?vp \<le> Right ?vp" "Right ?vp < X ?n"
    "0 \<le> Top ?vp" "Top ?vp \<le> Bottom ?vp" "Bottom ?vp < Y ?n"
    by (simp_all add: viewport_contained_def rect_contained_def)
  have dx: "to_SHORT (X sz - GetScreenWindowSizeX si) = X sz - (Right ?vp - Left ?vp + 1)"
    using v n sz by (simp add: GetScreenWindowSizeX_def CalcWindowSizeX_def to_SHORT_keep)
  have dy: "to_SHORT (Y sz - GetScreenWindowSizeY si) = Y sz - (Bottom ?vp - Top ?vp + 1)"
    using v n sz by (simp add: GetScreenWindowSizeY_def CalcWindowSizeY_def to_SHORT_keep)
  let ?vx = "InternalSetViewportSize_X (X sz - (Right ?vp - Left ?vp + 1)) fl (X ?n) ?vp"
  let ?vy = "InternalSetViewportSize_Y (Y sz - (Bottom ?vp - Top ?vp + 1)) ft (Y ?n) ve ?vx"
  from InternalSetViewportSize_X_axis [OF v(1,2,3) n(1) sz(1,3), of fl]
  have x: "axis_ok (X ?n) (Left ?vx) (Right ?vx)" "Top ?vx = Top ?vp" "Bottom ?vx = Bottom ?vp"
    by simp_all
  have "axis_ok (Y ?n) (Top (InternalSetViewportSize_Y (Y sz - (Bottom ?vx - Top ?vx + 1)) ft (Y ?n) ve ?vx))
          (Bottom (InternalSetViewportSize_Y (Y sz - (Bottom ?vx - Top ?vx + 1)) ft (Y ?n) ve ?vx))
        \<and> Left (InternalSetViewportSize_Y (Y sz - (Bottom ?vx - Top ?vx + 1)) ft (Y ?n) ve ?vx) = Left ?vx
        \<and> Right (InternalSetViewportSize_Y (Y sz - (Bottom ?vx - Top ?vx + 1)) ft (Y ?n) ve ?vx) = Right ?vx"
    using v n sz x by (intro InternalSetViewportSize_Y_axis) simp_all
  then have y: "axis_ok (Y ?n) (Top ?vy) (Bottom ?vy)" "Left ?vy = Left ?vx" "Right ?vy = Right ?vx"
    using x by simp_all
  have "rect_contained ?n (InternalSetViewportSize_valid ?n ?vy)"
    using x y v n by (intro InternalSetViewportSize_valid_contained) simp_all
  then show ?thesis
    by (simp add: InternalSetViewportSize_def Let_def dx dy viewport_contained_def
        GetScreenBufferSize_def)
qed

lemma SetViewportOrigin_contained:
  assumes c: "viewport_contained si"
      and n: "X (GetScreenBufferSize si) \<le> 32767" "Y (GetScreenBufferSize si) \<le> 32767"
      and p: "is_SHORT (X p)" "is_SHORT (Y p)"
      and w: "\<forall>f. fActive \<and> pWindow = Some f \<longrightarrow> window_keeps_containment f"
  shows "viewport_contained (snd (SetViewportOrigin fActive pWindow fAbsolute p si))
         \<and> GetScreenBufferSize (snd (SetViewportOrigin fActive pWindow fAbsolute p si))
           = GetScreenBufferSize si"
proof -
  let ?vp = "srBufferViewport si"
  let ?n = "GetScreenBufferSize si"
  from c have v: "0 \<le> Left ?vp" "Left ?vp \<le> Right ?vp" "Right ?vp < X ?n"
    "0 \<le> Top ?vp" "Top ?vp \<le> Bottom ?vp" "Bottom ?vp < Y ?n"
    by (simp_all add: viewport_contained_def rect_contained_def)
  have wx: "to_SHORT (GetScreenWindowSizeX si) = Right ?vp - Left ?vp + 1"
    using v n by (simp add: GetScreenWindowSizeX_def CalcWindowSizeX_def to_SHORT_keep)
  have wy: "to_SHORT (GetScreenWindowSizeY si) = Bottom ?vp - Top ?vp + 1"
    using v n by (simp add: GetScreenWindowSizeY_def CalcWindowSizeY_def to_SHORT_keep)
  define NL where "NL = (if \<not> fAbsolute then to_SHORT (Left ?vp + X p) else X p)"
  define NT where "NT = (if \<not> fAbsolute then to_SHORT (Top ?vp + Y p) else Y p)"
  define NW where "NW = \<lparr>Left = NL, Top = NT,
      Right = to_SHORT (NL + (Right ?vp - Left ?vp + 1) - 1),
      Bottom = to_SHORT (NT + (Bottom ?vp - Top ?vp + 1) - 1)\<rparr>"
  have rl: "NL \<le> 32767" "NT \<le> 32767"
    using p to_SHORT_range [of "Left ?vp + X p"] to_SHORT_range [of "Top ?vp + Y p"]
    by (auto simp add: NL_def NT_def is_SHORT_def)
  have ok: "rect_contained ?n NW"
    if chk: "\<not> (Left NW < 0 \<or> Top NW < 0 \<or> Right NW < 0 \<or> Bottom NW < 0
               \<or> Right NW \<ge> X ?n \<or> Bottom NW \<ge> Y ?n)"
  proof -
    from chk have nl: "0 \<le> NL" "0 \<le> NT" by (simp_all add: NW_def)
    have "NL \<le> Right NW"
    proof (cases "NL + (Right ?vp - Left ?vp + 1) - 1 \<le> 32767")
      case True
      then show ?thesis using nl v by (simp add: NW_def to_SHORT_keep)
    next
      case False
      then have "to_SHORT (NL + (Right ?vp - Left ?vp + 1) - 1)
                 = NL + (Right ?vp - Left ?vp + 1) - 1 - 65536"
        using rl v n by (intro to_SHORT_high) auto
      with chk rl v n show ?thesis by (simp add: NW_def)
    qed
    moreover have "NT \<le> Bottom NW"
    proof (cases "NT + (Bottom ?vp - Top ?vp + 1) - 1 \<le> 32767")
      case True
      then show ?thesis using nl v by (simp add: NW_def to_SHORT_keep)
    next
      case False
      then have "to_SHORT (NT + (Bottom ?vp - Top ?vp + 1) - 1)
                 = NT + (Bottom ?vp - Top ?vp + 1) - 1 - 65536"
        using rl v n by (intro to_SHORT_high) auto
      with chk rl v n show ?thesis by (simp add: NW_def)
    qed
    ultimately show ?thesis using chk by (simp add: rect_contained_def NW_def)
  qed
  have body: "SetViewportOrigin fActive pWindow fAbsolute p si =
     (if \<not> fAbsolute \<and> X p = 0 \<and> Y p = 0 then (STATUS_SUCCESS, si)
      else if fAbsolute \<and> X p = Left ?vp \<and> Y p = Top ?vp then (STATUS_SUCCESS, si)
      else if Left NW < 0 \<or> Top NW < 0 \<or> Right NW < 0 \<or> Bottom NW < 0
              \<or> Right NW \<ge> X ?n \<or> Bottom NW \<ge> Y ?n
      then (STATUS_INVALID_PARAMETER, si)
      else if fActive
      then (case pWindow of None \<Rightarrow> (STATUS_SUCCESS, si)
            | Some f \<Rightarrow> (STATUS_SUCCESS, f NW si))
      else (STATUS_SUCCESS, si\<lparr>srBufferViewport := NW\<rparr>))"
    by (simp add: SetViewportOrigin_def Let_def wx wy NW_def NL_def NT_def split: option.split)
  have wk: "viewport_contained (f NW si) \<and> GetScreenBufferSize (f NW si) = ?n"
    if "fActive" "pWindow = Some f" "rect_contained ?n NW" for f
    using w that unfolding window_keeps_containment_def by blast
  have st: "viewport_contained (si\<lparr>srBufferViewport := NW\<rparr>)
            \<and> GetScreenBufferSize (si\<lparr>srBufferViewport := NW\<rparr>) = ?n"
    if "rect_contained ?n NW"
    using that by (simp add: viewport_contained_def GetScreenBufferSize_def)
  let ?early = "(\<not> fAbsolute \<and> X p = 0 \<and> Y p = 0)
      \<or> (fAbsolute \<and> X p = Left ?vp \<and> Y p = Top ?vp)
      \<or> (Left NW < 0 \<or> Top NW < 0 \<or> Right NW < 0 \<or> Bottom NW < 0
              \<or> Right NW \<ge> X ?n \<or> Bottom NW \<ge> Y ?n)"
  show ?thesis
  proof (cases ?early)
    case True
    then have "snd (SetViewportOrigin fActive pWindow fAbsolute p si) = si"
      unfolding body by auto
    then show ?thesis using c by simp
  next
    case False
    then have r: "rect_contained ?n NW" using ok by blast
    show ?thesis
    proof (cases fActive)
      case inactive: False
      with \<open>\<not> ?early\<close> have "snd (SetViewportOrigin fActive pWindow fAbsolute p si)
          = si\<lparr>srBufferViewport := NW\<rparr>"
        unfolding body by auto
      then show ?thesis using st [OF r] by simp
    next
      case active: True
      show ?thesis
      proof (cases pWindow)
        case None
        with active \<open>\<not> ?early\<close> have "snd (SetViewportOrigin fActive pWindow fAbsolute p si) = si"
          unfolding body by auto
        then show ?thesis using c by simp
      next
        case (Some f)
        with active \<open>\<not> ?early\<close> have "snd (SetViewportOrigin fActive pWindow fAbsolute p si) = f NW si"
          unfolding body by auto
        then show ?thesis using wk [OF active Some r] by simp
      qed
    qed
  qed
qed

lemma SetViewportRect_contained:
  assumes c: "viewport_contained si"
      and n: "X (GetScreenBufferSize si) \<le> 32767" "Y (GetScreenBufferSize si) \<le> 32767"
      and r: "viewport_op_in_range (GetScreenBufferSize si) (OpSetViewportRect r)"
  shows "fst (snd (SetViewportRect r si))
           = \<lparr>Left = max 0 (Left r), Top = max 0 (Top r),
              Right = Right r - min 0 (Left r), Bottom = Bottom r - min 0 (Top r)\<rparr>"
    and "srBufferViewport (snd (snd (SetViewportRect r si))) = fst (snd (SetViewportRect r si))"
    and "viewport_contained (snd (snd (SetViewportRect r si)))"
    and "GetScreenBufferSize (snd (snd (SetViewportRect r si))) = GetScreenBufferSize si"
proof -
  let ?n = "GetScreenBufferSize si"
  let ?r' = "\<lparr>Left = max 0 (Left r), Top = max 0 (Top r),
              Right = Right r - min 0 (Left r), Bottom = Bottom r - min 0 (Top r)\<rparr>"
  from r have q: "Left r \<le> Right r" "Top r \<le> Bottom r" "- 32768 \<le> Left r" "- 32768 \<le> Top r"
    "Right r - min 0 (Left r) < X ?n" "Bottom r - min 0 (Top r) < Y ?n" by simp_all
  have eq: "SetViewportRect r si = (STATUS_SUCCESS, ?r', si\<lparr>srBufferViewport := ?r'\<rparr>)"
  proof (cases "srBufferViewport si = r")
    case True
    with c have "rect_contained ?n r" by (simp add: viewport_contained_def)
    then have "?r' = r" by (simp add: rect_contained_def)
    with True show ?thesis by (simp add: SetViewportRect_def)
  next
    case False
    then show ?thesis using q n
      by (cases r) (auto simp add: SetViewportRect_def Let_def to_SHORT_keep)
  qed
  show "fst (snd (SetViewportRect r si)) = ?r'" by (simp add: eq)
  show "srBufferViewport (snd (snd (SetViewportRect r si))) = fst (snd (SetViewportRect r si))"
    by (simp add: eq)
  show "viewport_contained (snd (snd (SetViewportRect r si)))"
    using q by (auto simp add: eq viewport_contained_def rect_contained_def GetScreenBufferSize_def)
  show "GetScreenBufferSize (snd (snd (SetViewportRect r si))) = ?n"
    by (simp add: eq GetScreenBufferSize_def)
qed

lemma viewport_step_contained:
  assumes "viewport_contained si"
      and "X (GetScreenBufferSize si) \<le> 32767" "Y (GetScreenBufferSize si) \<le> 32767"
      and "viewport_op_in_range (GetScreenBufferSize si) op"
      and "\<forall>f. fActive \<and> pWindow = Some f \<longrightarrow> window_keeps_containment f"
  shows "viewport_contained (viewport_step fActive pWindow op si)
         \<and> GetScreenBufferSize (viewport_step fActive pWindow op si) = GetScreenBufferSize si"
proof (cases op)
  case (OpSetViewportRect r)
  with assms SetViewportRect_contained(3,4) [of si r] show ?thesis by simp
next
  case (OpSetViewportOrigin fAbsolute p)
  with assms SetViewportOrigin_contained [of si p fActive pWindow fAbsolute] show ?thesis by simp
next
  case (OpInternalSetViewportSize ve sz ft fl)
  with assms InternalSetViewportSize_contained [of si sz ve ft fl] show ?thesis by simp
qed

text \<open>
  Containment for arguments in range. From a viewport inside the buffer, every sequence
  of SetViewportOrigin, _InternalSetViewportSize and SetViewportRect calls whose
  arguments are in range leaves the viewport inside the buffer, 0 \<le> left \<le> right < cols
  and 0 \<le> top \<le> bottom < rows, and the buffer size unchanged. In range means: the origin
  has \<open>SHORT\<close> coordinates; the requested size is at least 1 by 1 and, added to the buffer
  size, stays within the \<open>SHORT\<close> range; the rectangle given to SetViewportRect is ordered
  and, once a negative left or top has been shifted to 0, lies inside the buffer, so that
  the clipping of SetViewportRect is not reached. On such a rectangle SetViewportRect
  stores left = max(0, left), top = max(0, top) and moves right and bottom by the same
  amount, so the size is preserved.
\<close>

theorem viewport_run_contained:
  assumes "viewport_contained si"
      and "X (GetScreenBufferSize si) \<le> 32767" "Y (GetScreenBufferSize si) \<le> 32767"
      and "\<forall>op\<in>set ops. viewport_op_in_range (GetScreenBufferSize si) op"
      and "\<forall>f. fActive \<and> pWindow = Some f \<longrightarrow> window_keeps_containment f"
  shows "viewport_contained (viewport_run fActive pWindow ops si)
         \<and> GetScreenBufferSize (viewport_run fActive pWindow ops si) = GetScreenBufferSize si
         \<and> (\<forall>r. viewport_op_in_range (GetScreenBufferSize si) (OpSetViewportRect r) \<longrightarrow>
               srBufferViewport (viewport_step fActive pWindow (OpSetViewportRect r) si)
                 = \<lparr>Left = max 0 (Left r), Top = max 0 (Top r),
                    Right = Right r - min 0 (Left r), Bottom = Bottom r - min 0 (Top r)\<rparr>)"
proof -
  have run: "viewport_contained (viewport_run fActive pWindow ops si)
         \<and> GetScreenBufferSize (viewport_run fActive pWindow ops si) = GetScreenBufferSize si"
    using assms
  proof (induction ops arbitrary: si)
    case Nil
    then show ?case by simp
  next
    case (Cons op ops)
    from Cons.prems have "viewport_op_in_range (GetScreenBufferSize si) op" by simp
    from viewport_step_contained [OF Cons.prems(1,2,3) this Cons.prems(5)]
    have s: "viewport_contained (viewport_step fActive pWindow op si)"
      "GetScreenBufferSize (viewport_step fActive pWindow op si) = GetScreenBufferSize si"
      by simp_all
    from Cons.IH [of "viewport_step fActive pWindow op si"] s Cons.prems
    show ?case by simp
  qed
  have "srBufferViewport (viewport_step fActive pWindow (OpSetViewportRect r) si)
          = \<lparr>Left = max 0 (Left r), Top = max 0 (Top r),
             Right = Right r - min 0 (Left r), Bottom = Bottom r - min 0 (Top r)\<rparr>"
    if "viewport_op_in_range (GetScreenBufferSize si) (OpSetViewportRect r)" for r
    using SetViewportRect_contained(1,2) [OF assms(1,2,3) that] by simp
  with run show ?thesis by blast
qed

lemma blank_screen_80x25:
  "GetScreenBufferSize (blank_screen \<lparr>X = 80, Y = 25\<rparr>) = \<lparr>X = 80, Y = 25\<rparr>"
  "coordScreenBufferSize (blank_screen \<lparr>X = 80, Y = 25\<rparr>) = \<lparr>X = 80, Y = 25\<rparr>"
  "srBufferViewport (blank_screen \<lparr>X = 80, Y = 25\<rparr>) = \<lparr>Left = 0, Top = 0, Right = 79, Bottom = 24\<rparr>"
  by (simp_all add: blank_screen_def SCREEN_INFORMATION_new_def SetScreenBufferSize_def
      GetScreenBufferSize_def to_SHORT_id is_SHORT_def)

theorem viewport_run_contained_witness:
  "viewport_contained (blank_screen \<lparr>X = 80, Y = 25\<rparr>)
   \<and> viewport_contained
       (viewport_run False None
          [OpInternalSetViewportSize \<lparr>X = 0, Y = 0\<rparr> \<lparr>X = 40, Y = 10\<rparr> False False,
           OpSetViewportOrigin True \<lparr>X = 5, Y = 3\<rparr>,
           OpSetViewportRect \<lparr>Left = - 2, Top = - 1, Right = 37, Bottom = 8\<rparr>]
          (blank_screen \<lparr>X = 80, Y = 25\<rparr>))
   \<and> srBufferViewport
       (viewport_step False None (OpSetViewportRect \<lparr>Left = - 2, Top = - 1, Right = 37, Bottom = 8\<rparr>)
          (blank_screen \<lparr>X = 80, Y = 25\<rparr>))
       = \<lparr>Left = 0, Top = 0, Right = 39, Bottom = 9\<rparr>"
proof -
  have c: "viewport_contained (blank_screen \<lparr>X = 80, Y = 25\<rparr>)"
    by (simp add: viewport_contained_def rect_contained_def blank_screen_80x25)
  from viewport_run_contained [of "blank_screen \<lparr>X = 80, Y = 25\<rparr>"
      "[OpInternalSetViewportSize \<lparr>X = 0, Y = 0\<rparr> \<lparr>X = 40, Y = 10\<rparr> False False,
        OpSetViewportOrigin True \<lparr>X = 5, Y = 3\<rparr>,
        OpSetViewportRect \<lparr>Left = - 2, Top = - 1, Right = 37, Bottom = 8\<rparr>]" False None, OF c]
  show ?thesis using c by (simp add: blank_screen_80x25 is_SHORT_def)
qed

text \<open>
  C1. The viewport is not kept inside the buffer by SetViewportRect: where it clips, it
  stores \<open>cols\<close> and \<open>rows\<close> in right and bottom, not \<open>cols - 1\<close> and \<open>rows - 1\<close>. On an
  80 by 25 buffer with the viewport \<open>{0, 0, 79, 24}\<close>, the rectangle \<open>{0, 0, 100, 30}\<close> is
  corrected to \<open>{0, 0, 80, 25}\<close> and stored, so right = cols and bottom = rows; the
  rectangle \<open>{100, 0, 120, 24}\<close> is stored as \<open>{100, 0, 80, 24}\<close>. _InternalSetViewportSize,
  asked for a 200 by 100 window on the same buffer, stops at \<open>{0, 0, 79, 24}\<close>.
\<close>

theorem SetViewportRect_clips_to_buffer_size:
  "viewport_contained (blank_screen \<lparr>X = 80, Y = 25\<rparr>)
   \<and> SetViewportRect \<lparr>Left = 0, Top = 0, Right = 100, Bottom = 30\<rparr> (blank_screen \<lparr>X = 80, Y = 25\<rparr>)
       = (STATUS_SUCCESS, \<lparr>Left = 0, Top = 0, Right = 80, Bottom = 25\<rparr>,
          (blank_screen \<lparr>X = 80, Y = 25\<rparr>)
            \<lparr>srBufferViewport := \<lparr>Left = 0, Top = 0, Right = 80, Bottom = 25\<rparr>\<rparr>)
   \<and> \<not> viewport_contained
       (viewport_run False None [OpSetViewportRect \<lparr>Left = 0, Top = 0, Right = 100, Bottom = 30\<rparr>]
          (blank_screen \<lparr>X = 80, Y = 25\<rparr>))
   \<and> srBufferViewport
       (viewport_run False None [OpSetViewportRect \<lparr>Left = 100, Top = 0, Right = 120, Bottom = 24\<rparr>]
          (blank_screen \<lparr>X = 80, Y = 25\<rparr>))
       = \<lparr>Left = 100, Top = 0, Right = 80, Bottom = 24\<rparr>
   \<and> srBufferViewport
       (viewport_run False None
          [OpInternalSetViewportSize \<lparr>X = 0, Y = 0\<rparr> \<lparr>X = 200, Y = 100\<rparr> False False]
          (blank_screen \<lparr>X = 80, Y = 25\<rparr>))
       = \<lparr>Left = 0, Top = 0, Right = 79, Bottom = 24\<rparr>"
proof -
  have inside: "viewport_contained (blank_screen \<lparr>X = 80, Y = 25\<rparr>)"
    by (simp add: viewport_contained_def rect_contained_def blank_screen_80x25)
  have clip: "SetViewportRect \<lparr>Left = 0, Top = 0, Right = 100, Bottom = 30\<rparr>
                (blank_screen \<lparr>X = 80, Y = 25\<rparr>)
       = (STATUS_SUCCESS, \<lparr>Left = 0, Top = 0, Right = 80, Bottom = 25\<rparr>,
          (blank_screen \<lparr>X = 80, Y = 25\<rparr>)
            \<lparr>srBufferViewport := \<lparr>Left = 0, Top = 0, Right = 80, Bottom = 25\<rparr>\<rparr>)"
    by (simp add: blank_screen_80x25 SetViewportRect_def Let_def GetScreenBufferSize_def)
  have outside: "\<not> viewport_contained
       (viewport_run False None [OpSetViewportRect \<lparr>Left = 0, Top = 0, Right = 100, Bottom = 30\<rparr>]
          (blank_screen \<lparr>X = 80, Y = 25\<rparr>))"
    by (simp add: viewport_contained_def rect_contained_def blank_screen_80x25 SetViewportRect_def
        Let_def GetScreenBufferSize_def)
  have unordered: "srBufferViewport
       (viewport_run False None [OpSetViewportRect \<lparr>Left = 100, Top = 0, Right = 120, Bottom = 24\<rparr>]
          (blank_screen \<lparr>X = 80, Y = 25\<rparr>))
       = \<lparr>Left = 100, Top = 0, Right = 80, Bottom = 24\<rparr>"
    by (simp add: blank_screen_80x25 SetViewportRect_def Let_def GetScreenBufferSize_def)
  have sibling: "srBufferViewport
       (viewport_run False None
          [OpInternalSetViewportSize \<lparr>X = 0, Y = 0\<rparr> \<lparr>X = 200, Y = 100\<rparr> False False]
          (blank_screen \<lparr>X = 80, Y = 25\<rparr>))
       = \<lparr>Left = 0, Top = 0, Right = 79, Bottom = 24\<rparr>"
    by code_simp
  from inside clip outside unordered sibling show ?thesis
    by (intro conjI)
qed

section \<open>Traditional resize\<close>






















lemma ResizeTraditional_staging_failure_unchanged:
  assumes "new_WCHARs env (nat (X coordNew * Y coordNew)) = None
           \<or> new_BYTEs env (nat (X coordNew * Y coordNew)) = None
           \<or> ResizeTraditional_rows env coordNew (GetScreenBufferSize si)
                (ResizeTraditional_TopRowIndex coordNew si) (Attributes si) (TextInfo si) = None"
  shows "snd (ResizeTraditional env coordNew si) = si"
    and "fst (ResizeTraditional env coordNew si) \<noteq> STATUS_SUCCESS"
  using assms by (auto simp add: ResizeTraditional_def Let_def split: option.splits)

text \<open>
  C2. Atomicity of ResizeTraditional on allocation failure. A failure while the new
  storage is staged (the two flat arrays, the ROW array, the attribute rows of added
  rows) returns with the screen buffer unchanged, as the lemma above states. A failure
  of \<open>AttrRow.Resize\<close> in the last loop does not: the call returns STATUS_NO_MEMORY
  after the ROW pointers, the flat storage and the stored size of the text buffer have
  been replaced, here for a 3 by 2 buffer resized to 4 by 2.
\<close>

theorem ResizeTraditional_late_failure_mutates:
  "fst (ResizeTraditional failing_Resize_env \<lparr>X = 4, Y = 2\<rparr>
          (lettered_screen \<lparr>X = 3, Y = 2\<rparr> \<lparr>X = 0, Y = 0\<rparr>)) = STATUS_NO_MEMORY
   \<and> TextRows (TextInfo (lettered_screen \<lparr>X = 3, Y = 2\<rparr> \<lparr>X = 0, Y = 0\<rparr>)) = [65, 65, 65, 66, 66, 66]
   \<and> TextRows (TextInfo (snd (ResizeTraditional failing_Resize_env \<lparr>X = 4, Y = 2\<rparr>
          (lettered_screen \<lparr>X = 3, Y = 2\<rparr> \<lparr>X = 0, Y = 0\<rparr>)))) = [65, 65, 65, 32, 66, 66, 66, 32]
   \<and> map Chars (Rows (TextInfo (lettered_screen \<lparr>X = 3, Y = 2\<rparr> \<lparr>X = 0, Y = 0\<rparr>))) = [0, 3]
   \<and> map Chars (Rows (TextInfo (snd (ResizeTraditional failing_Resize_env \<lparr>X = 4, Y = 2\<rparr>
          (lettered_screen \<lparr>X = 3, Y = 2\<rparr> \<lparr>X = 0, Y = 0\<rparr>))))) = [0, 4]
   \<and> coordBufferSize (TextInfo (lettered_screen \<lparr>X = 3, Y = 2\<rparr> \<lparr>X = 0, Y = 0\<rparr>)) = \<lparr>X = 3, Y = 2\<rparr>
   \<and> coordBufferSize (TextInfo (snd (ResizeTraditional failing_Resize_env \<lparr>X = 4, Y = 2\<rparr>
          (lettered_screen \<lparr>X = 3, Y = 2\<rparr> \<lparr>X = 0, Y = 0\<rparr>)))) = \<lparr>X = 4, Y = 2\<rparr>
   \<and> GetScreenBufferSize (snd (ResizeTraditional failing_Resize_env \<lparr>X = 4, Y = 2\<rparr>
          (lettered_screen \<lparr>X = 3, Y = 2\<rparr> \<lparr>X = 0, Y = 0\<rparr>))) = \<lparr>X = 3, Y = 2\<rparr>"
  by code_simp

section \<open>The alternate buffer and the output pipeline\<close>


lemma InitializeOutputStateMachine_succeeds:
  assumes "AltEnv_succeeds env" "heap c this = Some obj"
  shows "InitializeOutputStateMachine env this c =
     Some (STATUS_SUCCESS,
       c\<lparr>heap := (heap c)(this \<mapsto> obj\<lparr>pConApi := Some (brk c),
                                        pBufferWriter := Some (Suc (brk c)),
                                        pAdapter := Some (Suc (Suc (brk c))),
                                        pStateMachine := Some (Suc (Suc (Suc (brk c))))\<rparr>),
         pipeline := (pipeline c)(brk c \<mapsto> ConhostInternalGetSet this,
                                  Suc (brk c) \<mapsto> WriteBuffer this,
                                  Suc (Suc (brk c)) \<mapsto> AdaptDispatch (Some (brk c)) (Some (Suc (brk c))),
                                  Suc (Suc (Suc (brk c))) \<mapsto> StateMachine (Some (Suc (Suc (brk c))))),
         brk := Suc (Suc (Suc (Suc (brk c))))\<rparr>)"
  using assms
  by (simp add: InitializeOutputStateMachine_def new_obj_def modify_def NT_TESTNULL_def
        AltEnv_succeeds_def Let_def)

lemma SCREEN_INFORMATION_new_links:
  "pStateMachine (SCREEN_INFORMATION_new fill ws bs ti) = None"
  "pAdapter (SCREEN_INFORMATION_new fill ws bs ti) = None"
  "pBufferWriter (SCREEN_INFORMATION_new fill ws bs ti) = None"
  "pConApi (SCREEN_INFORMATION_new fill ws bs ti) = None"
  "psiMainBuffer (SCREEN_INFORMATION_new fill ws bs ti) = None"
  "psiAlternateBuffer (SCREEN_INFORMATION_new fill ws bs ti) = None"
  by (simp_all add: SCREEN_INFORMATION_new_def SetScreenBufferSize_def)

lemma CreateInstance_succeeds:
  assumes "AltEnv_succeeds env"
  shows "\<exists>obj. CreateInstance env ws bs fill c =
     Some (STATUS_SUCCESS, Some (brk c),
       c\<lparr>heap := (heap c)(brk c \<mapsto> obj),
         pipeline := (pipeline c)(Suc (brk c) \<mapsto> ConhostInternalGetSet (brk c),
                                  Suc (Suc (brk c)) \<mapsto> WriteBuffer (brk c),
                                  Suc (Suc (Suc (brk c))) \<mapsto> AdaptDispatch (Some (Suc (brk c))) (Some (Suc (Suc (brk c)))),
                                  Suc (Suc (Suc (Suc (brk c)))) \<mapsto> StateMachine (Some (Suc (Suc (Suc (brk c)))))),
         brk := Suc (Suc (Suc (Suc (Suc (brk c)))))\<rparr>) \<and>
      pipeline_handles obj = (Some (Suc (Suc (Suc (Suc (brk c))))), Some (Suc (Suc (Suc (brk c)))),
                              Some (Suc (Suc (brk c))), Some (Suc (brk c))) \<and>
      psiMainBuffer obj = None \<and> psiAlternateBuffer obj = None"
proof -
  from assms obtain ti where ti: "TEXT_BUFFER_INFO_CreateInstance env = Inr ti"
    by (auto simp add: AltEnv_succeeds_def split: sum.splits)
  from assms have n: "fNew_SCREEN_INFORMATION env" by (simp add: AltEnv_succeeds_def)
  define ob where "ob = SCREEN_INFORMATION_new fill ws bs ti"
  let ?c2 = "c\<lparr>brk := Suc (brk c), heap := (heap c)(brk c \<mapsto> ob)\<rparr>"
  have h: "heap ?c2 (brk c) = Some ob" by simp
  have ci: "CreateInstance env ws bs fill c =
     (case InitializeOutputStateMachine env (brk c) ?c2 of
              None \<Rightarrow> None
            | Some (Status, c3) \<Rightarrow>
                Some (Status, (if NT_SUCCESS Status then Some (brk c) else None), c3))"
    unfolding CreateInstance_def Let_def ob_def using n ti by simp
  show ?thesis
    unfolding ci InitializeOutputStateMachine_succeeds [OF assms h]
    by (rule exI [where x = "ob\<lparr>pConApi := Some (Suc (brk c)),
                               pBufferWriter := Some (Suc (Suc (brk c))),
                               pAdapter := Some (Suc (Suc (Suc (brk c)))),
                               pStateMachine := Some (Suc (Suc (Suc (Suc (brk c)))))\<rparr>"])
       (simp add: pipeline_handles_def ob_def SCREEN_INFORMATION_new_links)
qed

lemma delete_obj_live:
  "pipeline c a \<noteq> None \<Longrightarrow>
   delete_obj (Some a) c = Some (c\<lparr>pipeline := (pipeline c)(a := None)\<rparr>)"
  by (auto simp add: delete_obj_def)

lemma FreeOutputStateMachine_main:
  assumes "heap c this = Some obj" "psiMainBuffer obj = None" "psiAlternateBuffer obj = None"
    "pipeline_handles obj = (Some sm, Some ad, Some bw, Some ca)"
    "pipeline c sm \<noteq> None" "pipeline c ad \<noteq> None" "pipeline c bw \<noteq> None" "pipeline c ca \<noteq> None"
    "distinct [sm, ad, bw, ca]"
  shows "FreeOutputStateMachine env this c =
     Some (c\<lparr>pipeline := (pipeline c)(sm := None, ad := None, bw := None, ca := None)\<rparr>)"
  using assms
  by (simp add: FreeOutputStateMachine.simps pipeline_handles_def delete_obj_live)


lemma pipeline_restore:
  assumes "console_fresh c"
  shows "(pipeline c)(Suc (brk c) := None, Suc (Suc (brk c)) := None,
            Suc (Suc (Suc (brk c))) := None, Suc (Suc (Suc (Suc (brk c)))) := None) = pipeline c"
  using assms by (auto simp add: console_fresh_def fun_eq_iff)

lemma console_fresh_live:
  assumes "console_fresh c"
  shows "heap c a = Some x \<Longrightarrow> a < brk c" "pipeline c a = Some y \<Longrightarrow> a < brk c"
    "a \<in> set (ScreenBuffers c) \<Longrightarrow> a < brk c"
  using assms by (auto simp add: console_fresh_def not_le [symmetric])

lemma CreateAltBuffer_succeeds:
  assumes ok: "AltEnv_succeeds env" and fresh: "console_fresh c" and me: "heap c this = Some me"
  shows "\<exists>ws cI own a.
     CreateInstance env ws ws (Attributes me) c = Some (STATUS_SUCCESS, Some (brk c), cI) \<and>
     heap cI (brk c) = Some own \<and>
     pipeline_handles own = (Some (Suc (Suc (Suc (Suc (brk c))))), Some (Suc (Suc (Suc (brk c)))),
                             Some (Suc (Suc (brk c))), Some (Suc (brk c))) \<and>
     handles_live cI (pipeline_handles own) \<and>
     CreateAltBuffer env this c =
       Some (STATUS_SUCCESS, Some (brk c),
             c\<lparr>heap := (heap c)(brk c \<mapsto> a), ScreenBuffers := brk c # ScreenBuffers c,
               brk := Suc (Suc (Suc (Suc (Suc (brk c)))))\<rparr>) \<and>
     pipeline_handles a = pipeline_handles me \<and> psiMainBuffer a = None \<and>
     psiAlternateBuffer a = None"
proof -
  let ?ws = "\<lparr>X = to_SHORT (CalcWindowSizeX (srBufferViewport me)),
               Y = to_SHORT (CalcWindowSizeY (srBufferViewport me))\<rparr>"
  define P where "P = (pipeline c)(Suc (brk c) \<mapsto> ConhostInternalGetSet (brk c),
                                  Suc (Suc (brk c)) \<mapsto> WriteBuffer (brk c),
                                  Suc (Suc (Suc (brk c))) \<mapsto> AdaptDispatch (Some (Suc (brk c))) (Some (Suc (Suc (brk c)))),
                                  Suc (Suc (Suc (Suc (brk c)))) \<mapsto> StateMachine (Some (Suc (Suc (Suc (brk c))))))"
  from CreateInstance_succeeds [OF ok, of ?ws ?ws "Attributes me" c]
  obtain own where
    ci: "CreateInstance env ?ws ?ws (Attributes me) c =
           Some (STATUS_SUCCESS, Some (brk c),
                 c\<lparr>heap := (heap c)(brk c \<mapsto> own), pipeline := P,
                   brk := Suc (Suc (Suc (Suc (Suc (brk c)))))\<rparr>)"
    and ph: "pipeline_handles own = (Some (Suc (Suc (Suc (Suc (brk c))))), Some (Suc (Suc (Suc (brk c)))),
                              Some (Suc (Suc (brk c))), Some (Suc (brk c)))"
    and pm: "psiMainBuffer own = None" and pa: "psiAlternateBuffer own = None"
    unfolding P_def by blast
  let ?cI = "c\<lparr>heap := (heap c)(brk c \<mapsto> own), pipeline := P,
                brk := Suc (Suc (Suc (Suc (Suc (brk c)))))\<rparr>"
  let ?cJ = "s_InsertScreenBuffer (brk c) ?cI"
  have ne: "this \<noteq> brk c" using console_fresh_live(1) [OF fresh me] by simp
  have fr: "FreeOutputStateMachine env (brk c) ?cJ =
              Some (?cJ\<lparr>pipeline := (pipeline ?cJ)(Suc (Suc (Suc (Suc (brk c)))) := None,
                      Suc (Suc (Suc (brk c))) := None, Suc (Suc (brk c)) := None,
                      Suc (brk c) := None)\<rparr>)"
    by (rule FreeOutputStateMachine_main [where obj = own])
       (simp_all add: s_InsertScreenBuffer_def pm pa ph P_def)
  have pr: "P(Suc (Suc (Suc (Suc (brk c)))) := None,
             Suc (Suc (Suc (brk c))) := None, Suc (Suc (brk c)) := None,
             Suc (brk c) := None) = pipeline c"
    using fresh by (auto simp add: P_def console_fresh_def fun_eq_iff)
  let ?a = "own\<lparr>pStateMachine := pStateMachine me, pAdapter := pAdapter me,
                 pBufferWriter := pBufferWriter me, pConApi := pConApi me\<rparr>"
  have "CreateAltBuffer env this c =
       Some (STATUS_SUCCESS, Some (brk c),
             c\<lparr>heap := (heap c)(brk c \<mapsto> ?a), ScreenBuffers := brk c # ScreenBuffers c,
               brk := Suc (Suc (Suc (Suc (Suc (brk c)))))\<rparr>)"
    unfolding CreateAltBuffer_def Let_def
    using me ne
    apply (simp add: ci fr)
    apply (simp add: s_InsertScreenBuffer_def modify_def pr)
    done
  moreover have "handles_live ?cI (pipeline_handles own)"
    by (simp add: ph handles_live_def live_def P_def)
  ultimately show ?thesis
    using ci ph pm pa
    by (intro exI [where x = ?ws] exI [where x = ?cI] exI [where x = own] exI [where x = ?a])
       (simp add: pipeline_handles_def)
qed


lemma replay_saved_resize_form:
  assumes "heap c M = Some m"
  shows "\<exists>m'. replay_saved_resize env M c = Some (c\<lparr>heap := (heap c)(M \<mapsto> m')\<rparr>) \<and>
     pipeline_handles m' = pipeline_handles m \<and> psiMainBuffer m' = psiMainBuffer m \<and>
     psiAlternateBuffer m' = psiAlternateBuffer m \<and> \<not> fAltWindowChanged m'"
proof (cases "fAltWindowChanged m")
  case True
  obtain sz vp ti where w: "ProcessResizeWindow_writes env m = (sz, vp, ti)"
    by (cases "ProcessResizeWindow_writes env m") auto
  show ?thesis
    by (rule exI [where x = "m\<lparr>coordScreenBufferSize := sz, srBufferViewport := vp,
                              TextInfo := ti, fAltWindowChanged := False\<rparr>"])
       (simp add: replay_saved_resize_def assms True w pipeline_handles_def)
next
  case False
  have "(heap c)(M \<mapsto> m) = heap c" using assms by (rule map_upd_triv)
  then show ?thesis
    by (intro exI [where x = m]) (simp add: replay_saved_resize_def assms False)
qed

lemma replay_saved_resize_idle:
  assumes "heap c M = Some m" "\<not> fAltWindowChanged m"
  shows "replay_saved_resize env M c = Some c"
  using assms by (simp add: replay_saved_resize_def)


lemma UseAlternateScreenBuffer_after_replay:
  assumes gm: "GetMainBuffer M c = Some M"
    and rp: "replay_saved_resize env M c = Some c'"
    and cab: "CreateAltBuffer env M c' =
        Some (STATUS_SUCCESS, Some A,
              c'\<lparr>heap := (heap c')(A \<mapsto> a), ScreenBuffers := A # ScreenBuffers c', brk := b\<rparr>)"
    and main: "heap c' M = Some m" "psiAlternateBuffer m = None"
    and P: "pBufferWriter m = Some bw" "pConApi m = Some ca"
    and gw: "pipeline c' ca = Some (ConhostInternalGetSet x)" "pipeline c' bw = Some (WriteBuffer y)"
    and ne: "M \<noteq> A"
    and ok: "SetActiveScreenBuffer_status env = STATUS_SUCCESS"
  shows "UseAlternateScreenBuffer env M c =
     Some (STATUS_SUCCESS,
       c'\<lparr>heap := (heap c')(A \<mapsto> a\<lparr>psiMainBuffer := Some M\<rparr>,
                               M \<mapsto> m\<lparr>psiAlternateBuffer := Some A\<rparr>),
          ScreenBuffers := A # ScreenBuffers c',
          CurrentScreenBuffer := Some A,
          pipeline := (pipeline c')(ca \<mapsto> ConhostInternalGetSet A, bw \<mapsto> WriteBuffer A),
          brk := b\<rparr>)"
proof -
  have cb: "ca \<noteq> bw" using gw by auto
  show ?thesis
    unfolding UseAlternateScreenBuffer_def
    using main P gw ne cb ok
    by (simp add: gm rp cab modify_def obj_SetActiveScreenBuffer_def SetActiveScreenBuffer_def)
qed

lemma UseMainScreenBuffer_of_alternate:
  assumes alt: "heap c A = Some a" "psiMainBuffer a = Some M"
    and P: "pBufferWriter a = Some bw" "pConApi a = Some ca"
    and main: "heap c M = Some m" "\<not> fAltWindowChanged m" "psiAlternateBuffer m = Some A"
    and reg: "ScreenBuffers c = A # rest"
    and gw: "pipeline c ca = Some (ConhostInternalGetSet x)" "pipeline c bw = Some (WriteBuffer y)"
    and ne: "M \<noteq> A"
    and ok: "SetActiveScreenBuffer_status env = STATUS_SUCCESS"
  shows "UseMainScreenBuffer env A c =
     Some (STATUS_SUCCESS,
       c\<lparr>heap := (heap c)(M \<mapsto> m\<lparr>psiAlternateBuffer := None\<rparr>, A := None),
         ScreenBuffers := rest,
         CurrentScreenBuffer := Some M,
         pipeline := (pipeline c)(ca \<mapsto> ConhostInternalGetSet M, bw \<mapsto> WriteBuffer M)\<rparr>)"
proof -
  have cb: "ca \<noteq> bw" using gw by auto
  let ?c3 = "c\<lparr>CurrentScreenBuffer := Some M,
               heap := (heap c)(M \<mapsto> m\<lparr>psiAlternateBuffer := None\<rparr>)\<rparr>"
  have ul: "unlink_ScreenBuffer env A ?c3 = ?c3\<lparr>ScreenBuffers := rest\<rparr>"
    using reg ne by (auto simp add: unlink_ScreenBuffer_def Let_def split: list.splits)
  have fr: "FreeOutputStateMachine env A (?c3\<lparr>ScreenBuffers := rest\<rparr>) =
      Some (?c3\<lparr>ScreenBuffers := rest,
                pipeline := (pipeline c)(ca \<mapsto> ConhostInternalGetSet M, bw \<mapsto> WriteBuffer M)\<rparr>)"
    using alt P gw ne cb
    by (simp add: FreeOutputStateMachine.simps obj_SetActiveScreenBuffer_def)
  have rm: "s_RemoveScreenBuffer env A ?c3 =
      Some (?c3\<lparr>ScreenBuffers := rest,
                pipeline := (pipeline c)(ca \<mapsto> ConhostInternalGetSet M, bw \<mapsto> WriteBuffer M),
                heap := (heap ?c3)(A := None)\<rparr>)"
    using alt ne reg by (simp add: s_RemoveScreenBuffer.simps [of env A ?c3] ul fr domI)
  show ?thesis
    unfolding UseMainScreenBuffer_def
    using alt main ok
    by (simp add: replay_saved_resize_idle [OF main(1,2)] SetActiveScreenBuffer_def modify_def rm)
qed

text \<open>
  C8. Single-custodian transfer of the output pipeline. Let the main buffer \<open>M\<close> own
  four live handles (state machine, adapter, buffer writer, getset), the writer and the
  getset acting on \<open>M\<close>, and let every allocation and \<open>::SetActiveScreenBuffer\<close> succeed.
  Then UseAlternateScreenBuffer on \<open>M\<close> succeeds; the new alternate buffer \<open>A\<close>, at the
  address \<open>new\<close> handed out, is the head of the registry and the active buffer, with
  \<open>M\<close> as its main and as \<open>M\<close>'s alternate; the four pipeline objects CreateInstance
  built for \<open>A\<close> were live when it returned and are freed; the four handles of \<open>A\<close> and
  of \<open>M\<close> are those \<open>M\<close> had, all live, with the getset and the writer acting on \<open>A\<close>.
  The following UseMainScreenBuffer on \<open>A\<close> succeeds; \<open>A\<close> is deleted and out of the
  registry, \<open>M\<close> is active with no alternate and the handles it had, all live, and the
  pipeline objects are as they were before the alternate buffer was created.
\<close>

theorem alt_buffer_pipeline_custody:
  assumes ok: "AltEnv_succeeds env" and fresh: "console_fresh c"
    and main: "heap c M = Some m" "psiMainBuffer m = None" "psiAlternateBuffer m = None"
    and P: "pipeline_handles m = (Some sm, Some ad, Some bw, Some ca)"
    and lv: "handles_live c (pipeline_handles m)"
    and gw: "pipeline c ca = Some (ConhostInternalGetSet M)" "pipeline c bw = Some (WriteBuffer M)"
  shows "\<exists>c0 ws fill cI own c1 a m1 c2 m2.
     replay_saved_resize env M c = Some c0 \<and>
     CreateInstance env ws ws fill c0 = Some (STATUS_SUCCESS, Some (brk c), cI) \<and>
     heap cI (brk c) = Some own \<and> handles_live cI (pipeline_handles own) \<and>
     UseAlternateScreenBuffer env M c = Some (STATUS_SUCCESS, c1) \<and>
     ScreenBuffers c1 = brk c # ScreenBuffers c \<and> CurrentScreenBuffer c1 = Some (brk c) \<and>
     heap c1 (brk c) = Some a \<and> psiMainBuffer a = Some M \<and>
     handles_freed c1 (pipeline_handles own) \<and>
     pipeline_handles a = pipeline_handles m \<and>
     heap c1 M = Some m1 \<and> psiAlternateBuffer m1 = Some (brk c) \<and>
     pipeline_handles m1 = pipeline_handles m \<and>
     handles_live c1 (pipeline_handles m) \<and>
     pipeline c1 ca = Some (ConhostInternalGetSet (brk c)) \<and>
     pipeline c1 bw = Some (WriteBuffer (brk c)) \<and>
     UseMainScreenBuffer env (brk c) c1 = Some (STATUS_SUCCESS, c2) \<and>
     heap c2 (brk c) = None \<and> ScreenBuffers c2 = ScreenBuffers c \<and>
     CurrentScreenBuffer c2 = Some M \<and>
     heap c2 M = Some m2 \<and> psiMainBuffer m2 = None \<and> psiAlternateBuffer m2 = None \<and>
     pipeline_handles m2 = pipeline_handles m \<and>
     handles_live c2 (pipeline_handles m) \<and> pipeline c2 = pipeline c"
proof -
  from replay_saved_resize_form [OF main(1), of env] obtain m' where
    rp: "replay_saved_resize env M c = Some (c\<lparr>heap := (heap c)(M \<mapsto> m')\<rparr>)"
    and m': "pipeline_handles m' = pipeline_handles m" "psiMainBuffer m' = None"
      "psiAlternateBuffer m' = None" "\<not> fAltWindowChanged m'"
    using main(2,3) by auto
  define c0 where "c0 = c\<lparr>heap := (heap c)(M \<mapsto> m')\<rparr>"
  define A where "A = brk c"
  have M_lt: "M < brk c" using console_fresh_live(1) [OF fresh main(1)] .
  have ne: "M \<noteq> A" using M_lt by (simp add: A_def)
  have c0_same: "brk c0 = brk c" "pipeline c0 = pipeline c" "ScreenBuffers c0 = ScreenBuffers c"
    "heap c0 M = Some m'"
    by (simp_all add: c0_def)
  have fresh0: "console_fresh c0"
    using fresh M_lt by (auto simp add: console_fresh_def c0_def)
  have ok_status: "SetActiveScreenBuffer_status env = STATUS_SUCCESS"
    using ok by (simp add: AltEnv_succeeds_def)
  from P m'(1) have Pm': "pStateMachine m' = Some sm" "pAdapter m' = Some ad"
      "pBufferWriter m' = Some bw" "pConApi m' = Some ca"
    by (simp_all add: pipeline_handles_def)
  from CreateAltBuffer_succeeds [OF ok fresh0 c0_same(4)] obtain ws cI own a where
    ci: "CreateInstance env ws ws (Attributes m') c0 = Some (STATUS_SUCCESS, Some A, cI)"
    and own: "heap cI A = Some own"
      "pipeline_handles own = (Some (Suc (Suc (Suc (Suc A)))), Some (Suc (Suc (Suc A))),
                               Some (Suc (Suc A)), Some (Suc A))"
      "handles_live cI (pipeline_handles own)"
    and cab: "CreateAltBuffer env M c0 =
       Some (STATUS_SUCCESS, Some A,
             c0\<lparr>heap := (heap c0)(A \<mapsto> a), ScreenBuffers := A # ScreenBuffers c0,
                brk := Suc (Suc (Suc (Suc (Suc A))))\<rparr>)"
    and a: "pipeline_handles a = pipeline_handles m'" "psiMainBuffer a = None"
      "psiAlternateBuffer a = None"
    unfolding c0_same(1) A_def [symmetric] by blast
  have gm: "GetMainBuffer M c = Some M"
    using main by (simp add: GetMainBuffer_def)
  define c1 where "c1 =
       c0\<lparr>heap := (heap c0)(A \<mapsto> a\<lparr>psiMainBuffer := Some M\<rparr>,
                               M \<mapsto> m'\<lparr>psiAlternateBuffer := Some A\<rparr>),
          ScreenBuffers := A # ScreenBuffers c0,
          CurrentScreenBuffer := Some A,
          pipeline := (pipeline c0)(ca \<mapsto> ConhostInternalGetSet A, bw \<mapsto> WriteBuffer A),
          brk := Suc (Suc (Suc (Suc (Suc A))))\<rparr>"
  have ua: "UseAlternateScreenBuffer env M c = Some (STATUS_SUCCESS, c1)"
    unfolding c1_def
    by (rule UseAlternateScreenBuffer_after_replay
          [OF gm rp [folded c0_def] cab c0_same(4) m'(3) Pm'(3,4) _ _ ne ok_status])
       (simp_all add: c0_same gw)
  have cb: "ca \<noteq> bw" using gw by auto
  have old: "ca < A" "bw < A" "sm < A" "ad < A"
    using lv P console_fresh_live(2) [OF fresh]
    by (auto simp add: handles_live_def live_def A_def)
  from a(1) m'(1) P have Pa: "pBufferWriter a = Some bw" "pConApi a = Some ca"
    by (simp_all add: pipeline_handles_def)
  define c2 where "c2 =
       c1\<lparr>heap := (heap c1)(M \<mapsto> m'\<lparr>psiAlternateBuffer := Some A\<rparr>\<lparr>psiAlternateBuffer := None\<rparr>,
                               A := None),
          ScreenBuffers := ScreenBuffers c,
          CurrentScreenBuffer := Some M,
          pipeline := (pipeline c1)(ca \<mapsto> ConhostInternalGetSet M, bw \<mapsto> WriteBuffer M)\<rparr>"
  have um: "UseMainScreenBuffer env A c1 = Some (STATUS_SUCCESS, c2)"
    unfolding c2_def
    by (rule UseMainScreenBuffer_of_alternate
          [where a = "a\<lparr>psiMainBuffer := Some M\<rparr>" and x = A and y = A])
       (use ne cb Pa m'(4) ok_status in \<open>simp_all add: c1_def c0_same\<close>)
  have p2: "pipeline c2 = pipeline c"
    using gw cb by (auto simp add: c2_def c1_def c0_same fun_eq_iff)
  have fr: "handles_freed c1 (pipeline_handles own)"
    using fresh old
    by (auto simp add: own(2) handles_freed_def freed_def c1_def c0_same console_fresh_def A_def)
  have l1: "handles_live c1 (pipeline_handles m)"
    using lv P by (auto simp add: handles_live_def live_def c1_def c0_same)
  have l2: "handles_live c2 (pipeline_handles m)"
    using lv unfolding handles_live_def live_def p2 .
  show ?thesis
    apply (rule exI [where x = c0], rule exI [where x = ws], rule exI [where x = "Attributes m'"],
           rule exI [where x = cI], rule exI [where x = own], rule exI [where x = c1],
           rule exI [where x = "a\<lparr>psiMainBuffer := Some M\<rparr>"],
           rule exI [where x = "m'\<lparr>psiAlternateBuffer := Some A\<rparr>"],
           rule exI [where x = c2],
           rule exI [where x = "m'\<lparr>psiAlternateBuffer := None\<rparr>"])
    unfolding A_def [symmetric]
    using rp [folded c0_def] ci own(1,3) ua um fr l1 l2 p2 ne cb a m'
    by (simp add: c1_def c2_def c0_same pipeline_handles_def)
qed


lemma main_Console_eq:
  "main_Console =
     \<lparr>heap = [1 \<mapsto> (SCREEN_INFORMATION_new 7 \<lparr>X = 80, Y = 25\<rparr> \<lparr>X = 80, Y = 25\<rparr>
                        (blank_TEXT_BUFFER_INFO \<lparr>X = 80, Y = 25\<rparr> ()))
                     \<lparr>pConApi := Some 2, pBufferWriter := Some 3,
                      pAdapter := Some 4, pStateMachine := Some 5\<rparr>],
      ScreenBuffers = [1], CurrentScreenBuffer = Some 1,
      pipeline = [2 \<mapsto> ConhostInternalGetSet 1, 3 \<mapsto> WriteBuffer 1,
                  4 \<mapsto> AdaptDispatch (Some 2) (Some 3), 5 \<mapsto> StateMachine (Some 4)],
      brk = 6\<rparr>"
  by (simp add: main_Console_def CreateInstance_def InitializeOutputStateMachine_def
        plain_AltEnv_def empty_Console_def new_obj_def modify_def NT_TESTNULL_def
        SetActiveScreenBuffer_def s_InsertScreenBuffer_def Let_def eval_nat_numeral)

theorem alt_buffer_pipeline_custody_witness:
  "\<exists>m c1 c2 a m1 m2.
     AltEnv_succeeds plain_AltEnv \<and> console_fresh main_Console \<and>
     heap main_Console 1 = Some m \<and> psiMainBuffer m = None \<and> psiAlternateBuffer m = None \<and>
     pipeline_handles m = (Some 5, Some 4, Some 3, Some 2) \<and>
     handles_live main_Console (pipeline_handles m) \<and>
     UseAlternateScreenBuffer plain_AltEnv 1 main_Console = Some (STATUS_SUCCESS, c1) \<and>
     ScreenBuffers c1 = [6, 1] \<and> CurrentScreenBuffer c1 = Some 6 \<and>
     heap c1 6 = Some a \<and> psiMainBuffer a = Some 1 \<and>
     pipeline_handles a = (Some 5, Some 4, Some 3, Some 2) \<and>
     heap c1 1 = Some m1 \<and> psiAlternateBuffer m1 = Some 6 \<and>
     pipeline_handles m1 = (Some 5, Some 4, Some 3, Some 2) \<and>
     pipeline c1 2 = Some (ConhostInternalGetSet 6) \<and> pipeline c1 3 = Some (WriteBuffer 6) \<and>
     UseMainScreenBuffer plain_AltEnv 6 c1 = Some (STATUS_SUCCESS, c2) \<and>
     heap c2 6 = None \<and> ScreenBuffers c2 = [1] \<and> CurrentScreenBuffer c2 = Some 1 \<and>
     heap c2 1 = Some m2 \<and> psiAlternateBuffer m2 = None \<and>
     pipeline_handles m2 = (Some 5, Some 4, Some 3, Some 2) \<and>
     pipeline c2 = pipeline main_Console"
proof -
  define m where "m = (SCREEN_INFORMATION_new 7 \<lparr>X = 80, Y = 25\<rparr> \<lparr>X = 80, Y = 25\<rparr>
                        (blank_TEXT_BUFFER_INFO \<lparr>X = 80, Y = 25\<rparr> ()))
                     \<lparr>pConApi := Some 2, pBufferWriter := Some 3,
                      pAdapter := Some 4, pStateMachine := Some 5\<rparr>"
  have ok: "AltEnv_succeeds plain_AltEnv"
    by (simp add: AltEnv_succeeds_def plain_AltEnv_def)
  have fresh: "console_fresh main_Console"
    by (simp add: console_fresh_def main_Console_eq)
  have main: "heap main_Console 1 = Some m" "psiMainBuffer m = None" "psiAlternateBuffer m = None"
    by (simp_all add: main_Console_eq m_def SCREEN_INFORMATION_new_def SetScreenBufferSize_def)
  have P: "pipeline_handles m = (Some 5, Some 4, Some 3, Some 2)"
    by (simp add: pipeline_handles_def m_def)
  have lv: "handles_live main_Console (pipeline_handles m)"
    by (simp add: P handles_live_def live_def main_Console_eq)
  have gw: "pipeline main_Console 2 = Some (ConhostInternalGetSet 1)"
    "pipeline main_Console 3 = Some (WriteBuffer 1)"
    by (simp_all add: main_Console_eq)
  have b: "brk main_Console = 6" "ScreenBuffers main_Console = [1]"
    by (simp_all add: main_Console_eq)
  from alt_buffer_pipeline_custody [OF ok fresh main P lv gw]
  show ?thesis
    unfolding b P using ok fresh main P lv by blast
qed

section \<open>Reflowing resize: placing the cursor\<close>












text \<open>
  A cursor on a row below the row of the last non-space character is not met.
\<close>

lemma ResizeWithReflow_cursor_below_not_met:
  assumes "to_SHORT (Y (GetLastNonSpaceCharacter env (TextInfo si)) + 1)
             \<le> Y (cPosition (cursor (TextInfo si)))"
  shows "\<not> ResizeWithReflow_meets_cursor env si"
  using assms by (simp add: ResizeWithReflow_meets_cursor_def Let_def)

text \<open>
  When no call fails, \<open>n\<close> calls are made: the buffer is the \<open>n\<close>-fold application of
  the method.
\<close>

lemma repeat_call_funpow:
  assumes "\<And>b. fst (f b)"
  shows "repeat_call f n (status, b) = (status, ((\<lambda>b. snd (f b)) ^^ n) b)"
proof -
  define g where "g = (\<lambda>b. snd (f b))"
  have "repeat_call f n (status, b) = (status, (g ^^ n) b)"
  proof (induction n arbitrary: b)
    case 0
    then show ?case by simp
  next
    case (Suc n)
    obtain ok b' where fb: "f b = (ok, b')" by (cases "f b")
    with assms [of b] have ok: ok by simp
    from fb have gb: "g b = b'" by (simp add: g_def)
    have "(g ^^ Suc n) b = (g ^^ n) (g b)" by (simp add: funpow_swap1)
    with fb ok gb show ?case by (simp add: Suc.IH)
  qed
  then show ?thesis by (simp add: g_def)
qed



end
